theory Spec2Isabelle
  imports Complex_Main "HOL-Library.Sublist"
begin

text \<open>
  A model of the parts of \<open>core/utils.py\<close> and \<open>core/tools.py\<close> that run package-manager
  commands for lists of tools and decide from exit codes and error texts whether the
  operation succeeded. Exceptions are values of a sum type, the commands handed to the
  shell are recorded in a list that every function takes and returns, and what the shell
  answers is a parameter. Logging and terminal output are left out: no function reads
  them back.
\<close>

section \<open>Python strings\<close>

text \<open>
  A Python \<open>str\<close> is modelled as a \<open>string\<close>, each \<open>char\<close> read as one code point in
  the range 0..255. \<open>contains p s\<close> is Python's \<open>p in s\<close>; it scans \<open>s\<close> from the left and
  tests at each position whether \<open>p\<close> starts there.
\<close>

primrec contains :: "string \<Rightarrow> string \<Rightarrow> bool" where
  "contains p [] = (p = [])"
| "contains p (c # cs) = (prefix p (c # cs) \<or> contains p cs)"

text \<open>
  The characters for which \<open>str.isspace\<close> holds (and which \<open>str.strip\<close> removes and the
  regular expression class \<open>\s\<close> matches) among the code points below 256.
\<close>

definition isspace :: "char \<Rightarrow> bool" where
  "isspace c = ((of_char c :: nat) \<in> {9, 10, 11, 12, 13, 28, 29, 30, 31, 32, 133, 160})"

definition strip :: "string \<Rightarrow> string" where
  "strip s = rev (dropWhile isspace (rev (dropWhile isspace s)))"

definition lower_char :: "char \<Rightarrow> char" where
  "lower_char c =
     (let n = (of_char c :: nat)
      in if (65 \<le> n \<and> n \<le> 90) \<or> (192 \<le> n \<and> n \<le> 222 \<and> n \<noteq> 215)
         then char_of (n + 32) else c)"

definition lower :: "string \<Rightarrow> string" where
  "lower s = map lower_char s"

text \<open>\<open>split sep s\<close> is \<open>s.split(sep)\<close> for a one-character separator.\<close>

primrec split :: "char \<Rightarrow> string \<Rightarrow> string list" where
  "split sep [] = [[]]"
| "split sep (c # cs) =
     (if c = sep then [] # split sep cs
      else (case split sep cs of [] \<Rightarrow> [[c]] | l # ls \<Rightarrow> (c # l) # ls))"

text \<open>\<open>replace old new s\<close> is \<open>s.replace(old, new)\<close> for a one-character \<open>old\<close>.\<close>

definition replace :: "char \<Rightarrow> string \<Rightarrow> string \<Rightarrow> string" where
  "replace old new s = concat (map (\<lambda>c. if c = old then new else [c]) s)"

text \<open>\<open>str_nat n\<close> is \<open>str(n)\<close> for a non-negative integer.\<close>

fun str_nat :: "nat \<Rightarrow> string" where
  "str_nat n =
     (if n < 10 then [char_of (48 + n)]
      else str_nat (n div 10) @ [char_of (48 + n mod 10)])"

declare str_nat.simps [simp del]

section \<open>Exceptions (core/utils.py)\<close>

text \<open>
  Every exception class of the program derives from \<open>KatoolinError\<close>, whose constructor
  builds the text that \<open>str(e)\<close> returns from a message, optional details and an optional
  suggestion. An exception is modelled by its class and that text. \<open>OtherError\<close> stands
  for an exception of any class that the handlers of \<open>ToolManager\<close> do not name.
\<close>

datatype error =
    RepositoryError string
  | ToolInstallationError string
  | PermissionError string
  | NetworkError string
  | SecurityError string
  | UserInputError string
  | OtherError string

fun str :: "error \<Rightarrow> string" where
  "str (RepositoryError m) = m"
| "str (ToolInstallationError m) = m"
| "str (PermissionError m) = m"
| "str (NetworkError m) = m"
| "str (SecurityError m) = m"
| "str (UserInputError m) = m"
| "str (OtherError m) = m"

definition full_message :: "string \<Rightarrow> string option \<Rightarrow> string option \<Rightarrow> string" where
  "full_message message details suggestion =
     message
     @ (case details of None \<Rightarrow> [] | Some d \<Rightarrow> if d = [] then [] else ''\<newline>Details: '' @ d)
     @ (case suggestion of None \<Rightarrow> [] | Some g \<Rightarrow> if g = [] then [] else ''\<newline>Suggestion: '' @ g)"

section \<open>Running shell commands (core/utils.py)\<close>

definition dangerous_patterns :: "string list" where
  "dangerous_patterns =
     ['';'', ''&&'', ''||'',
      ''`'', ''$('', ''${'',
      ''>'', ''>>'', ''<'',
      ''|'',
      ''rm -rf /'', ''rm -rf /*'',
      ''mkfs'', ''dd if=/dev/zero'',
      '':(){:|:&};:'',
      ''/etc/passwd'', ''/etc/shadow'']"

text \<open>
  \<open>sanitize_command\<close> walks the list of patterns and raises at the first one that occurs
  in the command; otherwise it returns its argument.
\<close>

definition security_error :: "string \<Rightarrow> error" where
  "security_error pattern =
     SecurityError
       (full_message (''Command contains potentially dangerous pattern: '' @ pattern)
          (Some (''The pattern '' @ [CHR 0x27] @ pattern @ [CHR 0x27]
                 @ '' could be used for command injection''))
          (Some ''Please review the command for security issues''))"

definition sanitize_command :: "string \<Rightarrow> error + string" where
  "sanitize_command command =
     (case find (\<lambda>pattern. contains pattern command) dangerous_patterns of
        Some pattern \<Rightarrow> Inl (security_error pattern)
      | None \<Rightarrow> Inr command)"

text \<open>
  The operating system is a parameter of the model. What \<open>subprocess.run\<close> does with a
  command may depend on everything that was run before, so a shell is a function of the
  list of commands issued so far and of the command: it either completes with a return
  code, standard output and standard error, or \<open>subprocess.run\<close> itself raises, with the
  given text. The state that the model threads through every call is that list of issued
  commands, which also records what was handed to the shell, and in which order.
\<close>

datatype proc = Completed int string string | Failure string

type_synonym shell = "string list \<Rightarrow> string \<Rightarrow> proc"

text \<open>
  \<open>captured\<close> is what \<open>run_command\<close> makes of the outcome of \<open>subprocess.run\<close> when
  \<open>capture_output\<close> is true: the return code with both streams stripped, or, when
  \<open>subprocess.run\<close> raised, exit code 1 with the exception text as stderr.
\<close>

fun captured :: "proc \<Rightarrow> int \<times> string \<times> string" where
  "captured (Completed returncode out err) = (returncode, strip out, strip err)"
| "captured (Failure msg) = (1, [], msg)"

text \<open>
  \<open>run_command\<close> returns the exit code alone when \<open>capture_output\<close> is false; the model
  then returns it with two empty strings, which no caller reads. A \<open>SecurityError\<close> is
  re-raised to the caller; every other exception is swallowed as described above.
\<close>

definition run_command ::
  "shell \<Rightarrow> string \<Rightarrow> bool \<Rightarrow> bool \<Rightarrow> string list
     \<Rightarrow> (error + int \<times> string \<times> string) \<times> string list" where
  "run_command sh command capture_output check_security h =
     (case (if check_security then sanitize_command command else Inr command) of
        Inl e \<Rightarrow> (Inl e, h)
      | Inr cmd \<Rightarrow>
          (Inr (if capture_output then captured (sh h cmd)
                else (fst (captured (sh h cmd)), [], [])),
           h @ [cmd]))"

section \<open>Classifying the error text of a failed installation (core/tools.py)\<close>

text \<open>
  The methods of \<open>ToolManager\<close> whose names start with an underscore keep their names
  without it. \<open>is_skippable_error\<close> and \<open>get_error_reason\<close> read nothing but their
  argument.
\<close>

definition skippable_patterns :: "string list" where
  "skippable_patterns =
     [''Unable to locate package'',
      ''has no installation candidate'',
      ''couldn't be found'',
      ''package not found'']"

definition python_version_conflicts :: "string \<Rightarrow> bool list" where
  "python_version_conflicts stderr =
     [contains ''python3-charset-normalizer'' stderr \<and> contains ''python3 (>= 3.13~)'' stderr,
      contains ''python3-psycopg2'' stderr \<and> contains ''python3 (>= 3.13~)'' stderr,
      contains ''python3-tk'' stderr \<and> contains ''python3 (>= 3.13~)'' stderr,
      contains ''python3-zope.interface'' stderr \<and> contains ''python3 (>= 3.13~)'' stderr,
      contains ''python3-pydantic-core'' stderr \<and> contains ''python3 (>= 3.13~)'' stderr,
      contains ''python3-uvloop'' stderr \<and> contains ''python3 (>= 3.13~)'' stderr]"

definition is_skippable_error :: "string \<Rightarrow> bool" where
  "is_skippable_error stderr =
     (if list_ex (\<lambda>pattern. contains pattern stderr) skippable_patterns then True
      else if list_ex (\<lambda>b. b) (python_version_conflicts stderr) then True
      else if contains ''pkgProblemResolver::Resolve generated breaks'' stderr then True
      else if contains ''python3 (>= 3.13~)'' stderr \<and> contains ''python3:amd64=3.12'' stderr
        then True
      else if contains ''caused by held packages'' stderr then True
      else False)"

definition get_error_reason :: "string \<Rightarrow> string" where
  "get_error_reason stderr =
     (if contains ''Unable to locate package'' stderr
        then ''Package not found in repositories''
      else if contains ''python3-charset-normalizer'' stderr
              \<and> contains ''python3 (>= 3.13~)'' stderr
        then ''Python 3.13+ required but system has 3.12 (version conflict)''
      else if contains ''python3-psycopg2'' stderr \<and> contains ''python3 (>= 3.13~)'' stderr
        then ''Python 3.13+ required but system has 3.12 (version conflict)''
      else if contains ''dependency'' (lower stderr) \<and> contains ''conflict'' (lower stderr)
        then ''Dependency conflicts (version mismatch)''
      else if contains ''broken'' (lower stderr) then ''Broken dependencies''
      else if contains ''Permission denied'' stderr then ''Permission denied''
      else if contains ''Could not resolve'' stderr \<or> contains ''Failed to fetch'' stderr
        then ''Network error''
      else if contains ''No space left'' stderr then ''Insufficient disk space''
      else if contains ''pkgProblemResolver::Resolve generated breaks'' stderr
        then ''Complex dependency conflicts detected''
      else
        (let lines = filter (\<lambda>line. line \<noteq> []) (map strip (split (CHR 0x0A) stderr));
             error_line =
               (case find (contains ''Error:'') lines of
                  Some line \<Rightarrow> line
                | None \<Rightarrow> (case lines of [] \<Rightarrow> ''Unknown error'' | line # rest \<Rightarrow> line))
         in if length error_line > 80 then take 80 error_line @ ''...'' else error_line))"

section \<open>Installing a small batch with one command (core/tools.py)\<close>

text \<open>\<open>join sep xs\<close> is \<open>sep.join(xs)\<close>.\<close>

fun join :: "string \<Rightarrow> string list \<Rightarrow> string" where
  "join sep [] = []"
| "join sep [x] = x"
| "join sep (x # y # ys) = x @ sep @ join sep (y # ys)"

text \<open>
  \<open>re.search(r"Unable to locate package ([^\s]+)", stderr)\<close>: the expression is tried at
  each position from the left; where the literal text is followed by at least one
  character that is not white space, group 1 is the longest run of such characters.
\<close>

definition match_unable_to_locate :: "string \<Rightarrow> string option" where
  "match_unable_to_locate s =
     (let literal = ''Unable to locate package '';
          group1 = takeWhile (\<lambda>c. \<not> isspace c) (drop (length literal) s)
      in if prefix literal s \<and> group1 \<noteq> [] then Some group1 else None)"

primrec search_unable_to_locate :: "string \<Rightarrow> string option" where
  "search_unable_to_locate [] = None"
| "search_unable_to_locate (c # cs) =
     (case match_unable_to_locate (c # cs) of
        Some group1 \<Rightarrow> Some group1
      | None \<Rightarrow> search_unable_to_locate cs)"

definition install_cmd :: "string list \<Rightarrow> string" where
  "install_cmd tools = ''apt install -y '' @ join '' '' tools"

definition batch_install_tools ::
  "shell \<Rightarrow> string list \<Rightarrow> string list \<Rightarrow> (error + bool) \<times> string list" where
  "batch_install_tools sh tools h =
     (case run_command sh (install_cmd tools) True True h of
        (Inl e, h') \<Rightarrow> (Inl e, h')
      | (Inr (result, stdout, stderr), h') \<Rightarrow>
          if result = 0 then (Inr True, h')
          else if contains ''Could not resolve'' stderr \<or> contains ''Failed to fetch'' stderr
            then (Inl (NetworkError
                         ''Network error while installing tools: Could not fetch packages''),
                  h')
          else if contains ''Permission denied'' stderr
                  \<or> contains ''requires root privileges'' stderr
            then (Inl (PermissionError
                         ''Permission denied while installing tools. Please run as root.''),
                  h')
          else if contains ''Unable to locate package'' stderr
            then (let package = (case search_unable_to_locate stderr of
                                   Some group1 \<Rightarrow> group1
                                 | None \<Rightarrow> ''some packages'')
                  in (Inl (ToolInstallationError
                             (''Package '' @ package @ '' not found in the repositories'')),
                      h'))
          else (Inl (ToolInstallationError ''Failed to install some tools''), h'))"

section \<open>Installing a large batch, one command per tool (core/tools.py)\<close>

definition name_variations :: "(string \<times> string list) list" where
  "name_variations =
     [(''acccheck'', [''acccheck-kali'', ''smb-enum'']),
      (''dnmap'', [''dnmap-kali'', ''distributed-nmap'']),
      (''enum4linux'', [''enum4linux-ng'', ''samba-enum'']),
      (''fragroute'', [''fragroute-kali'', ''libnet-fragroute'']),
      (''ghost-phisher'', [''ghost-phisher-kali'']),
      (''golismero'', [''golismero-kali'']),
      (''xplico'', [''xplico-kali''])]"

definition get_alternative_package_names :: "string \<Rightarrow> string list" where
  "get_alternative_package_names tool_name =
     (case map_of name_variations tool_name of Some names \<Rightarrow> names | None \<Rightarrow> [])
     @ [tool_name @ ''-kali'',
        ''kali-'' @ tool_name,
        replace (CHR ''-'') [] tool_name,
        replace (CHR ''_'') ''-'' tool_name,
        ''python3-'' @ tool_name,
        tool_name @ ''-ng'']"

text \<open>
  Each fallback strategy has the shape
  \<^verbatim>\<open>try: result, _, _ = run_command(cmd, capture_output=True)
     if result == 0: return True
except Exception: pass\<close>
  and \<open>returned_zero\<close> tells whether such a block returns \<open>True\<close>.
\<close>

definition returned_zero :: "error + int \<times> string \<times> string \<Rightarrow> bool" where
  "returned_zero r = (case r of Inl e \<Rightarrow> False | Inr (result, out, err) \<Rightarrow> result = 0)"

definition python_deps :: "string list" where
  "python_deps = [''python3=3.12*'', ''python3-dev=3.12*'', ''python3-pip'']"

fun install_deps :: "shell \<Rightarrow> string list \<Rightarrow> string list \<Rightarrow> (error + unit) \<times> string list" where
  "install_deps sh [] h = (Inr (), h)"
| "install_deps sh (dep # deps) h =
     (case run_command sh (''apt install -y '' @ dep) True True h of
        (Inl e, h') \<Rightarrow> (Inl e, h')
      | (Inr r, h') \<Rightarrow> install_deps sh deps h')"

definition resolve_python_dependency_conflicts ::
  "shell \<Rightarrow> string \<Rightarrow> string \<Rightarrow> string list \<Rightarrow> bool \<times> string list" where
  "resolve_python_dependency_conflicts sh tool_name stderr h =
     (let (r1, h1) =
            run_command sh (''apt install -y --no-install-recommends '' @ tool_name) True True h
      in if returned_zero r1 then (True, h1)
      else
        let (ok2, h2) =
              (if contains ''python3-'' tool_name \<or> tool_name \<in> set [''enum4linux'', ''xplico'']
               then (case install_deps sh python_deps h1 of
                       (Inl e, h') \<Rightarrow> (False, h')
                     | (Inr u, h') \<Rightarrow>
                         (let (r, h'') =
                                run_command sh (''apt install -y '' @ tool_name) True True h'
                          in (returned_zero r, h'')))
               else (False, h1))
        in if ok2 then (True, h2)
        else
          let (r3, h3) = run_command sh (''apt-get install -y '' @ tool_name) True True h2
          in if returned_zero r3 then (True, h3)
          else
            (case run_command sh ''which aptitude'' False True h3 of
               (Inl e, h') \<Rightarrow> (False, h')
             | (Inr (aptitude_check, out, err), h') \<Rightarrow>
                 if aptitude_check = 0
                 then (let (r, h'') =
                             run_command sh (''aptitude install -y '' @ tool_name) True True h'
                       in (returned_zero r, h''))
                 else (False, h')))"

fun try_alternative_names ::
  "shell \<Rightarrow> string list \<Rightarrow> string list \<Rightarrow> bool \<times> string list" where
  "try_alternative_names sh [] h = (False, h)"
| "try_alternative_names sh (alt_name # alt_names) h =
     (case run_command sh (''apt install -y '' @ alt_name) True True h of
        (r, h') \<Rightarrow> if returned_zero r then (True, h') else try_alternative_names sh alt_names h')"

definition try_installation_fallbacks ::
  "shell \<Rightarrow> string \<Rightarrow> string \<Rightarrow> string list \<Rightarrow> bool \<times> string list" where
  "try_installation_fallbacks sh tool_name stderr h =
     (let (ok1, h1) =
            (if contains ''dependency'' (lower stderr) \<and> contains ''python'' (lower stderr)
             then resolve_python_dependency_conflicts sh tool_name stderr h
             else (False, h))
      in if ok1 then (True, h1)
      else
        let (ok2, h2) =
              (if contains ''dependency'' (lower stderr) \<or> contains ''broken'' (lower stderr)
               then (let (r, h') =
                           run_command sh (''apt install -f -y && apt install -y '' @ tool_name)
                             True True h1
                     in (returned_zero r, h'))
               else (False, h1))
        in if ok2 then (True, h2)
        else
          let (ok3, h3) = try_alternative_names sh (get_alternative_package_names tool_name) h2
          in if ok3 then (True, h3)
          else
            (case run_command sh ''which snap'' False True h3 of
               (Inl e, h') \<Rightarrow> (False, h')
             | (Inr (snap_check, out, err), h') \<Rightarrow>
                 if snap_check = 0
                 then (let (r, h'') = run_command sh (''snap install '' @ tool_name) True True h'
                       in (returned_zero r, h''))
                 else (False, h')))"

text \<open>
  The variables that the worker closures share: every coordinator has \<open>completed_tools\<close>
  and \<open>failed_tools\<close>, installation adds \<open>skipped_tools\<close>, removal \<open>not_installed\<close> and
  upgrading \<open>already_newest\<close>.
\<close>

record progress =
  completed_tools :: nat
  failed_tools :: "(string \<times> string) list"

record install_progress = progress +
  skipped_tools :: "(string \<times> string) list"

record remove_progress = progress +
  not_installed :: nat

record update_progress = progress +
  already_newest :: nat

definition install_single_tool ::
  "shell \<Rightarrow> nat \<Rightarrow> string \<Rightarrow> install_progress \<times> string list
     \<Rightarrow> bool \<times> install_progress \<times> string list" where
  "install_single_tool sh total_tools tool_name s =
     (case s of (p, h) \<Rightarrow>
        (case run_command sh (''apt install -y '' @ tool_name) True True h of
           (Inl e, h1) \<Rightarrow>
             (False, p\<lparr>failed_tools := failed_tools p @ [(tool_name, str e)]\<rparr>, h1)
         | (Inr (result, stdout, stderr), h1) \<Rightarrow>
             (let p1 = p\<lparr>completed_tools := completed_tools p + 1\<rparr>
              in if result \<noteq> 0
                 then (case try_installation_fallbacks sh tool_name stderr h1 of
                         (installed, h2) \<Rightarrow>
                           if installed then (True, p1, h2)
                           else if is_skippable_error stderr
                             then (True,
                                   p1\<lparr>skipped_tools :=
                                        skipped_tools p1 @ [(tool_name, get_error_reason stderr)]\<rparr>,
                                   h2)
                           else (False,
                                 p1\<lparr>failed_tools := failed_tools p1 @ [(tool_name, stderr)]\<rparr>,
                                 h2))
                 else (True, p1, h1))))"

text \<open>
  \<open>ParallelExecutor.map\<close> runs the worker once for each item on a pool of threads and
  collects the results in the order of completion. The model runs the workers one after
  the other in the order of the input; the callers below read the list of results only
  through \<open>sum\<close> and \<open>all\<close>, which do not depend on its order. The workers catch
  every exception themselves, so \<open>map\<close> has nothing to re-raise.
\<close>

fun executor_map :: "('a \<Rightarrow> 's \<Rightarrow> bool \<times> 's) \<Rightarrow> 'a list \<Rightarrow> 's \<Rightarrow> bool list \<times> 's" where
  "executor_map func [] s = ([], s)"
| "executor_map func (item # items) s =
     (case func item s of
        (result, s1) \<Rightarrow> (case executor_map func items s1 of
                           (results, s2) \<Rightarrow> (result # results, s2)))"

text \<open>\<open>sum(results)\<close> of a list of booleans counts the true ones.\<close>

definition sum_bools :: "bool list \<Rightarrow> nat" where
  "sum_bools results = length (filter (\<lambda>r. r) results)"

definition str_int :: "int \<Rightarrow> string" where
  "str_int i = (if i < 0 then ''-'' @ str_nat (nat (- i)) else str_nat (nat i))"

definition install_all ::
  "shell \<Rightarrow> string list \<Rightarrow> string list \<Rightarrow> bool list \<times> install_progress \<times> string list" where
  "install_all sh tools h =
     executor_map (install_single_tool sh (length tools)) tools
       (\<lparr>completed_tools = 0, failed_tools = [], skipped_tools = []\<rparr>, h)"

text \<open>
  The part of \<open>_parallel_install_tools\<close> that follows the comment ``Determine success
  based on more intelligent criteria''. The quotient \<open>actual_failures / installable_tools\<close>
  is a Python float compared with the float \<open>0.3\<close>; the model compares the exact quotient
  with 3/10, which gives the same answer for every list of fewer than \<open>10^15\<close> tools. The
  \<open>ToolInstallationError\<close> raised here is caught by the enclosing handler and raised
  again with the prefix shown.
\<close>

definition install_verdict :: "nat \<Rightarrow> nat \<Rightarrow> nat \<Rightarrow> nat \<Rightarrow> error + bool" where
  "install_verdict total_tools successful failed skipped =
     (let actual_failures = failed;
          installable_tools = int total_tools - int skipped
      in if installable_tools = 0 then Inr False
         else if int successful = installable_tools then Inr True
         else if actual_failures = 0 then Inr True
         else
           let failure_rate = (of_nat actual_failures :: rat) / of_int installable_tools
           in if failure_rate \<le> 3 / 10 then Inr True
              else Inl (ToolInstallationError
                          (''Error during parallel installation: ''
                           @ ''Too many installation failures: '' @ str_nat actual_failures
                           @ ''/'' @ str_int installable_tools
                           @ '' installable tools failed'')))"

definition parallel_install_tools ::
  "shell \<Rightarrow> string list \<Rightarrow> string list \<Rightarrow> (error + bool) \<times> string list" where
  "parallel_install_tools sh tools h =
     (case install_all sh tools h of
        (results, p, h') \<Rightarrow>
          (let total_tools = length tools;
               successful = sum_bools results;
               failed = length (failed_tools p);
               skipped = length (skipped_tools p)
           in (install_verdict total_tools successful failed skipped, h')))"

section \<open>install_tools (core/tools.py)\<close>

text \<open>
  What the terminal gives to \<open>input\<close>: a line, an interrupt or the end of the input.
  \<open>safe_input\<close> is called with a prompt only, so \<open>validate_input\<close> is modelled with its
  optional parameters absent.
\<close>

datatype console = Typed string | KeyboardInterrupt | EOFError string

definition input_dangerous_patterns :: "string list" where
  "input_dangerous_patterns =
     ['';'', ''&&'', ''||'', ''`'', ''$('',
      ''>'', ''>>'', ''<'',
      ''|'',
      ''rm -rf'', ''wget'', ''curl'',
      ''/etc/passwd'', ''/etc/shadow'']"

definition validate_input :: "string \<Rightarrow> error + string" where
  "validate_input user_input =
     (if user_input = [] then Inr user_input
      else (case find (\<lambda>pattern. contains pattern user_input) input_dangerous_patterns of
              Some pattern \<Rightarrow>
                Inl (UserInputError
                       (full_message (''Input contains potentially dangerous pattern: '' @ pattern)
                          (Some (''The pattern '' @ [CHR 0x27] @ pattern @ [CHR 0x27]
                                 @ '' could be used for command injection''))
                          (Some ''Please remove special characters and shell commands from your input'')))
            | None \<Rightarrow> Inr user_input))"

definition safe_input :: "console \<Rightarrow> error + string" where
  "safe_input c =
     (case c of
        Typed user_input \<Rightarrow> validate_input user_input
      | KeyboardInterrupt \<Rightarrow> Inr []
      | EOFError m \<Rightarrow>
          Inl (UserInputError
                 (full_message ''Error reading input from user'' (Some m)
                    (Some ''Try again or check your terminal settings''))))"

text \<open>
  The repository manager is handed to \<open>ToolManager\<close> by its creator; its
  \<open>add_repository\<close> is a parameter of the model: it may issue commands, and it returns a
  boolean or raises.
\<close>

type_synonym repository = "string list \<Rightarrow> (error + bool) \<times> string list"

text \<open>
  The handlers at the end of \<open>install_tools\<close> and of \<open>remove_tools\<close> re-raise the classes
  they name and wrap every other exception in a \<open>ToolInstallationError\<close>.
\<close>

fun install_handler :: "error \<Rightarrow> error" where
  "install_handler (RepositoryError m) = RepositoryError m"
| "install_handler (NetworkError m) = NetworkError m"
| "install_handler (PermissionError m) = PermissionError m"
| "install_handler (ToolInstallationError m) = ToolInstallationError m"
| "install_handler e = ToolInstallationError (''Unexpected error installing tools: '' @ str e)"

fun remove_handler :: "error \<Rightarrow> error" where
  "remove_handler (PermissionError m) = PermissionError m"
| "remove_handler (ToolInstallationError m) = ToolInstallationError m"
| "remove_handler e = ToolInstallationError (''Unexpected error removing tools: '' @ str e)"

definition install_tools ::
  "shell \<Rightarrow> repository \<Rightarrow> console \<Rightarrow> string list \<Rightarrow> bool \<Rightarrow> string list
     \<Rightarrow> (error + bool) \<times> string list" where
  "install_tools sh add_repository terminal tools skip_confirmation h =
     (case (case (if skip_confirmation then Inr [] else safe_input terminal) of
              Inl e \<Rightarrow> (Inl e, h)
            | Inr confirm \<Rightarrow>
                if \<not> skip_confirmation \<and> lower confirm = ''n'' then (Inr False, h)
                else (case add_repository h of
                        (Inl e, h1) \<Rightarrow> (Inl e, h1)
                      | (Inr added, h1) \<Rightarrow>
                          if \<not> added then (Inl (RepositoryError ''Failed to add repository''), h1)
                          else if length tools \<le> 3 then batch_install_tools sh tools h1
                          else parallel_install_tools sh tools h1)) of
        (Inl e, h') \<Rightarrow> (Inl (install_handler e), h')
      | (Inr b, h') \<Rightarrow> (Inr b, h'))"

section \<open>Removing tools (core/tools.py)\<close>

definition remove_cmd :: "string list \<Rightarrow> string" where
  "remove_cmd tools = ''apt remove -y '' @ join '' '' tools"

text \<open>
  In the branch that returns \<open>False\<close> the source searches stderr for the name of the
  package only to word the warning it prints; terminal output is not part of the model.
\<close>

definition batch_remove_tools ::
  "shell \<Rightarrow> string list \<Rightarrow> string list \<Rightarrow> (error + bool) \<times> string list" where
  "batch_remove_tools sh tools h =
     (case run_command sh (remove_cmd tools) True True h of
        (Inl e, h') \<Rightarrow> (Inl e, h')
      | (Inr (result, stdout, stderr), h') \<Rightarrow>
          if result = 0 then (Inr True, h')
          else if contains ''Permission denied'' stderr
                  \<or> contains ''requires root privileges'' stderr
            then (Inl (PermissionError
                         ''Permission denied while removing tools. Please run as root.''),
                  h')
          else if contains ''Unable to locate package'' stderr
                  \<or> contains ''is not installed'' stderr
            then (Inr False, h')
          else (Inl (ToolInstallationError ''Failed to remove some tools''), h'))"

definition remove_single_tool ::
  "shell \<Rightarrow> nat \<Rightarrow> string \<Rightarrow> remove_progress \<times> string list
     \<Rightarrow> bool \<times> remove_progress \<times> string list" where
  "remove_single_tool sh total_tools tool_name s =
     (case s of (p, h) \<Rightarrow>
        (case run_command sh (''apt remove -y '' @ tool_name) True True h of
           (Inl e, h1) \<Rightarrow>
             (False, p\<lparr>failed_tools := failed_tools p @ [(tool_name, str e)]\<rparr>, h1)
         | (Inr (result, stdout, stderr), h1) \<Rightarrow>
             (let p1 = p\<lparr>completed_tools := completed_tools p + 1\<rparr>
              in if result \<noteq> 0
                 then if contains ''Unable to locate package'' stderr
                         \<or> contains ''is not installed'' stderr
                      then (True, p1\<lparr>not_installed := not_installed p1 + 1\<rparr>, h1)
                      else (False,
                            p1\<lparr>failed_tools := failed_tools p1 @ [(tool_name, stderr)]\<rparr>,
                            h1)
                 else (True, p1, h1))))"

definition remove_all ::
  "shell \<Rightarrow> string list \<Rightarrow> string list \<Rightarrow> bool list \<times> remove_progress \<times> string list" where
  "remove_all sh tools h =
     executor_map (remove_single_tool sh (length tools)) tools
       (\<lparr>completed_tools = 0, failed_tools = [], not_installed = 0\<rparr>, h)"

definition parallel_remove_tools ::
  "shell \<Rightarrow> string list \<Rightarrow> string list \<Rightarrow> (error + bool) \<times> string list" where
  "parallel_remove_tools sh tools h =
     (case remove_all sh tools h of
        (results, p, h') \<Rightarrow>
          (let total_tools = length tools
           in if list_all (\<lambda>r. r) results
              then (if not_installed p = length tools then (Inr False, h')
                    else if not_installed p > 0 then (Inr True, h')
                    else (Inr True, h'))
              else (Inl (ToolInstallationError
                           (''Error during parallel removal: ''
                            @ ''Failed to remove '' @ str_nat (length (failed_tools p))
                            @ '' out of '' @ str_nat total_tools @ '' tools'')),
                    h')))"

definition remove_tools ::
  "shell \<Rightarrow> console \<Rightarrow> string list \<Rightarrow> bool \<Rightarrow> string list
     \<Rightarrow> (error + bool) \<times> string list" where
  "remove_tools sh terminal tools skip_confirmation h =
     (case (case (if skip_confirmation then Inr [] else safe_input terminal) of
              Inl e \<Rightarrow> (Inl e, h)
            | Inr confirm \<Rightarrow>
                if \<not> skip_confirmation \<and> lower confirm \<noteq> ''y'' then (Inr False, h)
                else if length tools \<le> 3 then batch_remove_tools sh tools h
                else parallel_remove_tools sh tools h) of
        (Inl e, h') \<Rightarrow> (Inl (remove_handler e), h')
      | (Inr b, h') \<Rightarrow> (Inr b, h'))"

section \<open>Upgrading tools (core/tools.py)\<close>

definition update_cmd :: "string list \<Rightarrow> string" where
  "update_cmd tools = ''apt install --only-upgrade -y '' @ join '' '' tools"

definition batch_update_tools ::
  "shell \<Rightarrow> string list \<Rightarrow> string list \<Rightarrow> (error + bool) \<times> string list" where
  "batch_update_tools sh tools h =
     (case run_command sh (update_cmd tools) True True h of
        (Inl e, h') \<Rightarrow> (Inl e, h')
      | (Inr (result, stdout, stderr), h') \<Rightarrow>
          if result = 0 then (Inr True, h')
          else if contains ''Could not resolve'' stderr \<or> contains ''Failed to fetch'' stderr
            then (Inl (NetworkError
                         ''Network error while updating tools: Could not fetch packages''),
                  h')
          else if contains ''Permission denied'' stderr
                  \<or> contains ''requires root privileges'' stderr
            then (Inl (PermissionError
                         ''Permission denied while updating tools. Please run as root.''),
                  h')
          else if contains ''Unable to locate package'' stderr
            then (let package = (case search_unable_to_locate stderr of
                                   Some group1 \<Rightarrow> group1
                                 | None \<Rightarrow> ''some packages'')
                  in (Inl (ToolInstallationError
                             (''Package '' @ package @ '' not found in the repositories'')),
                      h'))
          else if contains ''is already the newest version'' stderr
                  \<and> contains ''0 upgraded'' stderr
            then (Inr True, h')
          else (Inl (ToolInstallationError ''Failed to update some tools''), h'))"

definition update_single_tool ::
  "shell \<Rightarrow> nat \<Rightarrow> string \<Rightarrow> update_progress \<times> string list
     \<Rightarrow> bool \<times> update_progress \<times> string list" where
  "update_single_tool sh total_tools tool_name s =
     (case s of (p, h) \<Rightarrow>
        (case run_command sh (''apt install --only-upgrade -y '' @ tool_name) True True h of
           (Inl e, h1) \<Rightarrow>
             (False, p\<lparr>failed_tools := failed_tools p @ [(tool_name, str e)]\<rparr>, h1)
         | (Inr (result, stdout, stderr), h1) \<Rightarrow>
             (let p1 = p\<lparr>completed_tools := completed_tools p + 1\<rparr>
              in if result \<noteq> 0
                 then if contains ''is already the newest version'' stderr
                      then (True, p1\<lparr>already_newest := already_newest p1 + 1\<rparr>, h1)
                      else (False,
                            p1\<lparr>failed_tools := failed_tools p1 @ [(tool_name, stderr)]\<rparr>,
                            h1)
                 else (True, p1, h1))))"

definition update_all ::
  "shell \<Rightarrow> string list \<Rightarrow> string list \<Rightarrow> bool list \<times> update_progress \<times> string list" where
  "update_all sh tools h =
     executor_map (update_single_tool sh (length tools)) tools
       (\<lparr>completed_tools = 0, failed_tools = [], already_newest = 0\<rparr>, h)"

definition parallel_update_tools ::
  "shell \<Rightarrow> string list \<Rightarrow> string list \<Rightarrow> (error + bool) \<times> string list" where
  "parallel_update_tools sh tools h =
     (case update_all sh tools h of
        (results, p, h') \<Rightarrow>
          (let total_tools = length tools
           in if list_all (\<lambda>r. r) results then (Inr True, h')
              else (Inl (ToolInstallationError
                           (''Error during parallel update: ''
                            @ ''Failed to update '' @ str_nat (length (failed_tools p))
                            @ '' out of '' @ str_nat total_tools @ '' tools'')),
                    h')))"

section \<open>check_installed (core/tools.py)\<close>

definition check_cmd :: "string \<Rightarrow> string" where
  "check_cmd tool_name =
     ''dpkg -s '' @ tool_name @ '' 2>/dev/null | grep -q '' @ [CHR 0x27]
     @ ''Status: install ok installed'' @ [CHR 0x27]"

definition check_installed ::
  "shell \<Rightarrow> string \<Rightarrow> string list \<Rightarrow> (error + bool) \<times> string list" where
  "check_installed sh tool_name h =
     (case run_command sh (check_cmd tool_name) False True h of
        (Inl e, h') \<Rightarrow>
          (Inl (ToolInstallationError
                  (''Error checking if tool '' @ tool_name @ '' is installed: '' @ str e)),
           h')
      | (Inr (result, out, err), h') \<Rightarrow> (Inr (result = 0), h'))"

section \<open>Test scenarios\<close>

text \<open>
  A shell for the concrete runs below. It answers \<open>apt install -y\<close> followed by package
  names as apt does: the first name that is neither available nor broken is reported as
  not locatable, a broken package makes dpkg fail, and otherwise the command succeeds.
  Every other command is not found.
\<close>

definition apt_install :: "string list \<Rightarrow> string list \<Rightarrow> string \<Rightarrow> proc" where
  "apt_install available broken args =
     (case find (\<lambda>pkg. pkg \<notin> set available \<and> pkg \<notin> set broken) (split (CHR '' '') args) of
        Some pkg \<Rightarrow> Completed 100 [] (''E: Unable to locate package '' @ pkg)
      | None \<Rightarrow>
          if list_ex (\<lambda>pkg. pkg \<in> set broken) (split (CHR '' '') args)
          then Completed 100 [] ''E: Sub-process /usr/bin/dpkg returned an error code (1)''
          else Completed 0 [] [])"

definition demo_shell :: "string list \<Rightarrow> string list \<Rightarrow> shell" where
  "demo_shell available broken h c =
     (if prefix ''apt install -y '' c then apt_install available broken (drop 15 c)
      else Completed 127 [] ''sh: 1: not found'')"

section \<open>Facts about strings\<close>

lemma contains_iff_sublist: "contains p s \<longleftrightarrow> sublist p s"
  by (induction s) (simp_all add: sublist_Cons_right)

lemma contains_append_middle: "contains p (a @ p @ b)"
  by (simp add: contains_iff_sublist)

text \<open>
  \<open>run_command\<close> strips the error text before the callers search it. For a pattern that
  neither starts nor ends with white space, as all patterns of the program do, this makes
  no difference.
\<close>

lemma contains_dropWhile:
  assumes "p \<noteq> []" "\<not> isspace (hd p)"
  shows "contains p (dropWhile isspace s) = contains p s"
proof (induction s)
  case Nil
  show ?case by simp
next
  case (Cons c cs)
  show ?case
  proof (cases "isspace c")
    case True
    with assms have "\<not> prefix p (c # cs)"
      by (cases p) auto
    with True Cons show ?thesis by simp
  next
    case False
    then show ?thesis by simp
  qed
qed

lemma contains_strip:
  assumes "p \<noteq> []" "\<not> isspace (hd p)" "\<not> isspace (last p)"
  shows "contains p (strip s) = contains p s"
proof -
  have "contains p (strip s) = contains (rev p) (dropWhile isspace (rev (dropWhile isspace s)))"
    by (simp add: strip_def contains_iff_sublist sublist_rev_right)
  also have "\<dots> = contains (rev p) (rev (dropWhile isspace s))"
    using assms by (intro contains_dropWhile) (simp_all add: hd_rev)
  also have "\<dots> = contains p (dropWhile isspace s)"
    by (simp add: contains_iff_sublist)
  also have "\<dots> = contains p s"
    using assms by (intro contains_dropWhile)
  finally show ?thesis .
qed


section \<open>The security check\<close>

lemma sanitize_command_cases:
  "sanitize_command c =
     (if \<exists>p \<in> set dangerous_patterns. contains p c
      then Inl (security_error (the (find (\<lambda>p. contains p c) dangerous_patterns)))
      else Inr c)"
proof (cases "find (\<lambda>p. contains p c) dangerous_patterns")
  case None
  then have "\<not> (\<exists>p \<in> set dangerous_patterns. contains p c)"
    by (simp add: find_None_iff)
  with None show ?thesis
    by (simp add: sanitize_command_def)
next
  case (Some p)
  then have "\<exists>p \<in> set dangerous_patterns. contains p c"
    by (metis find_None_iff option.distinct(1))
  with Some show ?thesis
    by (simp add: sanitize_command_def)
qed

text \<open>
  C9. \<open>sanitize_command\<close> raises a \<open>SecurityError\<close> exactly when the command contains one
  of the fixed dangerous substrings, and returns the command unchanged otherwise. So does
  \<open>run_command\<close> with \<open>check_security = True\<close>: it raises exactly then, issuing nothing,
  and otherwise hands the very command it was given to the shell.
\<close>

theorem sanitize_command_raises_iff_dangerous:
  "((\<exists>m. sanitize_command c = Inl (SecurityError m))
      \<longleftrightarrow> (\<exists>p \<in> set dangerous_patterns. contains p c))
   \<and> ((\<forall>p \<in> set dangerous_patterns. \<not> contains p c) \<longrightarrow> sanitize_command c = Inr c)
   \<and> (\<forall>e. sanitize_command c = Inl e \<longrightarrow> (\<exists>m. e = SecurityError m))
   \<and> ((\<exists>m. fst (run_command sh c capture True h) = Inl (SecurityError m))
      \<longleftrightarrow> (\<exists>p \<in> set dangerous_patterns. contains p c))
   \<and> ((\<exists>p \<in> set dangerous_patterns. contains p c)
      \<longrightarrow> snd (run_command sh c capture True h) = h)
   \<and> ((\<forall>p \<in> set dangerous_patterns. \<not> contains p c)
      \<longrightarrow> snd (run_command sh c capture True h) = h @ [c])"
  by (auto simp: sanitize_command_cases run_command_def security_error_def)

theorem sanitize_command_raises_iff_dangerous_witness:
  "sanitize_command ''apt install -y nmap'' = Inr ''apt install -y nmap''
   \<and> snd (run_command (\<lambda>h c. Completed 0 [] []) ''apt install -y nmap'' True True [])
       = [''apt install -y nmap'']
   \<and> (\<exists>m. sanitize_command ''apt install -y nmap; reboot'' = Inl (SecurityError m))
   \<and> snd (run_command (\<lambda>h c. Completed 0 [] []) ''apt install -y nmap; reboot'' True True [])
       = []"
proof -
  have clean: "\<forall>p \<in> set dangerous_patterns. \<not> contains p ''apt install -y nmap''"
    by (simp add: dangerous_patterns_def)
  have dirty: "\<exists>p \<in> set dangerous_patterns. contains p ''apt install -y nmap; reboot''"
    by (simp add: dangerous_patterns_def)
  note ok = sanitize_command_raises_iff_dangerous
      [of "''apt install -y nmap''" "\<lambda>h c. Completed 0 [] []" True "[]"]
  note bad = sanitize_command_raises_iff_dangerous
      [of "''apt install -y nmap; reboot''" "\<lambda>h c. Completed 0 [] []" True "[]"]
  from ok clean have "sanitize_command ''apt install -y nmap'' = Inr ''apt install -y nmap''"
    by blast
  moreover from ok clean
  have "snd (run_command (\<lambda>h c. Completed 0 [] []) ''apt install -y nmap'' True True [])
          = [] @ [''apt install -y nmap'']"
    by blast
  moreover from bad dirty
  have "\<exists>m. sanitize_command ''apt install -y nmap; reboot'' = Inl (SecurityError m)"
    by blast
  moreover from bad dirty
  have "snd (run_command (\<lambda>h c. Completed 0 [] []) ''apt install -y nmap; reboot'' True True [])
          = []"
    by blast
  ultimately show ?thesis
    by simp
qed

lemma check_cmd_dangerous: "\<exists>p \<in> set dangerous_patterns. contains p (check_cmd tool_name)"
proof -
  have "check_cmd tool_name
          = (''dpkg -s '' @ tool_name @ '' 2'') @ ''>''
            @ (''/dev/null | grep -q '' @ [CHR 0x27] @ ''Status: install ok installed''
               @ [CHR 0x27])"
    by (simp add: check_cmd_def)
  then have "contains ''>'' (check_cmd tool_name)"
    by (metis contains_append_middle)
  moreover have "''>'' \<in> set dangerous_patterns"
    by (simp add: dangerous_patterns_def)
  ultimately show ?thesis
    by blast
qed

text \<open>
  C10. For every tool name the command that \<open>check_installed\<close> builds contains \<open>>\<close>, so
  \<open>run_command\<close> raises a \<open>SecurityError\<close> before anything is issued, and
  \<open>check_installed\<close> turns it into a \<open>ToolInstallationError\<close>: it never returns a boolean.
\<close>

theorem check_installed_always_raises:
  "(\<exists>m. run_command sh (check_cmd tool_name) False True h = (Inl (SecurityError m), h))
   \<and> (\<exists>msg. check_installed sh tool_name h = (Inl (ToolInstallationError msg), h))
   \<and> (\<forall>b h'. check_installed sh tool_name h \<noteq> (Inr b, h'))"
  using check_cmd_dangerous [of tool_name]
  by (auto simp: check_installed_def run_command_def sanitize_command_cases
                 security_error_def)

theorem check_installed_always_raises_witness:
  "(\<exists>msg. check_installed (\<lambda>h c. Completed 0 [] []) ''nmap'' []
            = (Inl (ToolInstallationError msg), []))
   \<and> check_installed (\<lambda>h c. Completed 0 [] []) ''nmap'' [] \<noteq> (Inr True, [''x''])"
  using check_installed_always_raises [of "\<lambda>h c. Completed 0 [] []" "''nmap''" "[]"]
  by blast

section \<open>Installing a small batch\<close>

lemma match_unable_to_locate_name:
  assumes "name \<noteq> []" "\<forall>c \<in> set name. \<not> isspace c" "rest = [] \<or> isspace (hd rest)"
  shows "match_unable_to_locate (''Unable to locate package '' @ name @ rest) = Some name"
proof -
  have "takeWhile (\<lambda>c. \<not> isspace c) rest = []"
    using assms(3) by (cases rest) auto
  with assms(2) have "takeWhile (\<lambda>c. \<not> isspace c) (name @ rest) = name"
    by simp
  with assms(1) show ?thesis
    by (simp add: match_unable_to_locate_def)
qed

lemma match_unable_to_locate_None:
  "\<not> prefix ''Unable to locate package '' s \<Longrightarrow> match_unable_to_locate s = None"
  by (simp add: match_unable_to_locate_def Let_def)

lemma search_unable_to_locate_first:
  assumes "name \<noteq> []" "\<forall>c \<in> set name. \<not> isspace c" "rest = [] \<or> isspace (hd rest)"
    and "\<not> contains ''Unable to locate package '' (pre @ ''Unable to locate package'')"
  shows "search_unable_to_locate (pre @ ''Unable to locate package '' @ name @ rest) = Some name"
  using assms(4)
proof (induction pre)
  case Nil
  from match_unable_to_locate_name [OF assms(1-3)] show ?case
    by simp
next
  case (Cons c pre)
  let ?all = "(c # pre) @ ''Unable to locate package '' @ name @ rest"
  from Cons.prems have no: "\<not> prefix ''Unable to locate package '' ((c # pre) @ ''Unable to locate package'')"
    and later: "\<not> contains ''Unable to locate package '' (pre @ ''Unable to locate package'')"
    by simp_all
  have "\<not> prefix ''Unable to locate package '' ?all"
  proof
    assume p: "prefix ''Unable to locate package '' ?all"
    have q: "prefix ((c # pre) @ ''Unable to locate package'') ?all"
      by simp
    have "length ''Unable to locate package '' \<le> length ((c # pre) @ ''Unable to locate package'')"
      by simp
    from prefix_length_prefix [OF p q this] no show False
      by blast
  qed
  then have "match_unable_to_locate ?all = None"
    by (rule match_unable_to_locate_None)
  with Cons.IH [OF later] show ?case
    by simp
qed

lemma batch_install_tools_dangerous:
  assumes "\<exists>p \<in> set dangerous_patterns. contains p (install_cmd tools)"
  shows "\<exists>m. batch_install_tools sh tools h = (Inl (SecurityError m), h)"
  using assms
  by (simp add: batch_install_tools_def run_command_def sanitize_command_cases security_error_def)

lemma run_command_clean:
  assumes "\<forall>p \<in> set dangerous_patterns. \<not> contains p c"
  shows "run_command sh c True True h = (Inr (captured (sh h c)), h @ [c])"
  using assms by (simp add: run_command_def sanitize_command_cases)

lemma batch_install_tools_clean:
  assumes "\<forall>p \<in> set dangerous_patterns. \<not> contains p (install_cmd tools)"
    and "captured (sh h (install_cmd tools)) = (result, out, stderr)"
  shows "batch_install_tools sh tools h =
     (if result = 0 then Inr True
      else if contains ''Could not resolve'' stderr \<or> contains ''Failed to fetch'' stderr
        then Inl (NetworkError ''Network error while installing tools: Could not fetch packages'')
      else if contains ''Permission denied'' stderr \<or> contains ''requires root privileges'' stderr
        then Inl (PermissionError ''Permission denied while installing tools. Please run as root.'')
      else if contains ''Unable to locate package'' stderr
        then Inl (ToolInstallationError
                    (''Package ''
                     @ (case search_unable_to_locate stderr of
                          Some group1 \<Rightarrow> group1 | None \<Rightarrow> ''some packages'')
                     @ '' not found in the repositories''))
      else Inl (ToolInstallationError ''Failed to install some tools''),
      h @ [install_cmd tools])"
  using assms(2)
  by (simp add: batch_install_tools_def run_command_clean [OF assms(1)])

lemma contains_unable_to_locate:
  "contains ''Unable to locate package'' (pre @ ''Unable to locate package '' @ name @ rest)"
proof -
  have "pre @ ''Unable to locate package '' @ name @ rest
          = pre @ ''Unable to locate package'' @ ('' '' @ name @ rest)"
    by simp
  then show ?thesis
    by (metis contains_append_middle)
qed

text \<open>
  C3 (as amended). When the combined command \<open>apt install -y\<close> followed by the
  space-joined package names contains a dangerous substring, \<open>SecurityError\<close> is raised
  and nothing is issued. Otherwise exactly that one command is issued, and the call
  returns true on exit code 0 and otherwise raises by the first rule that matches, in
  this order: \<open>NetworkError\<close> for ``Could not resolve'' or ``Failed to fetch'',
  \<open>PermissionError\<close> for ``Permission denied'' or ``requires root privileges'',
  \<open>ToolInstallationError\<close> naming the package for ``Unable to locate package'' (the name
  that the pattern extracts, or ``some packages''), and a generic \<open>ToolInstallationError\<close>.
  The last part says what the pattern extracts: the run of non-blank characters after the
  first occurrence of the literal text.
\<close>

theorem batch_install_tools_typed_outcome:
  "((\<exists>p \<in> set dangerous_patterns. contains p (install_cmd tools))
      \<longrightarrow> (\<exists>m. batch_install_tools sh tools h = (Inl (SecurityError m), h)))
   \<and> ((\<forall>p \<in> set dangerous_patterns. \<not> contains p (install_cmd tools))
       \<and> captured (sh h (install_cmd tools)) = (result, out, stderr)
      \<longrightarrow> snd (batch_install_tools sh tools h) = h @ [''apt install -y '' @ join '' '' tools]
          \<and> fst (batch_install_tools sh tools h) =
              (if result = 0 then Inr True
               else if contains ''Could not resolve'' stderr \<or> contains ''Failed to fetch'' stderr
                 then Inl (NetworkError
                             ''Network error while installing tools: Could not fetch packages'')
               else if contains ''Permission denied'' stderr
                       \<or> contains ''requires root privileges'' stderr
                 then Inl (PermissionError
                             ''Permission denied while installing tools. Please run as root.'')
               else if contains ''Unable to locate package'' stderr
                 then Inl (ToolInstallationError
                             (''Package ''
                              @ (case search_unable_to_locate stderr of
                                   Some group1 \<Rightarrow> group1 | None \<Rightarrow> ''some packages'')
                              @ '' not found in the repositories''))
               else Inl (ToolInstallationError ''Failed to install some tools'')))
   \<and> ((\<forall>p \<in> set dangerous_patterns. \<not> contains p (install_cmd tools))
       \<and> captured (sh h (install_cmd tools)) = (result, out, stderr)
       \<and> result \<noteq> 0
       \<and> \<not> contains ''Could not resolve'' stderr \<and> \<not> contains ''Failed to fetch'' stderr
       \<and> \<not> contains ''Permission denied'' stderr
       \<and> \<not> contains ''requires root privileges'' stderr
       \<and> stderr = pre @ ''Unable to locate package '' @ name @ rest
       \<and> name \<noteq> [] \<and> (\<forall>c \<in> set name. \<not> isspace c) \<and> (rest = [] \<or> isspace (hd rest))
       \<and> \<not> contains ''Unable to locate package '' (pre @ ''Unable to locate package'')
      \<longrightarrow> fst (batch_install_tools sh tools h) =
            Inl (ToolInstallationError (''Package '' @ name @ '' not found in the repositories'')))"
proof (intro conjI impI)
  assume "\<exists>p \<in> set dangerous_patterns. contains p (install_cmd tools)"
  then show "\<exists>m. batch_install_tools sh tools h = (Inl (SecurityError m), h)"
    by (rule batch_install_tools_dangerous)
next
  assume a: "(\<forall>p \<in> set dangerous_patterns. \<not> contains p (install_cmd tools))
       \<and> captured (sh h (install_cmd tools)) = (result, out, stderr)"
  then show "snd (batch_install_tools sh tools h) = h @ [''apt install -y '' @ join '' '' tools]"
    by (simp add: batch_install_tools_clean) (simp add: install_cmd_def)
  from a show "fst (batch_install_tools sh tools h) =
              (if result = 0 then Inr True
               else if contains ''Could not resolve'' stderr \<or> contains ''Failed to fetch'' stderr
                 then Inl (NetworkError
                             ''Network error while installing tools: Could not fetch packages'')
               else if contains ''Permission denied'' stderr
                       \<or> contains ''requires root privileges'' stderr
                 then Inl (PermissionError
                             ''Permission denied while installing tools. Please run as root.'')
               else if contains ''Unable to locate package'' stderr
                 then Inl (ToolInstallationError
                             (''Package ''
                              @ (case search_unable_to_locate stderr of
                                   Some group1 \<Rightarrow> group1 | None \<Rightarrow> ''some packages'')
                              @ '' not found in the repositories''))
               else Inl (ToolInstallationError ''Failed to install some tools''))"
    by (simp add: batch_install_tools_clean)
next
  assume a: "(\<forall>p \<in> set dangerous_patterns. \<not> contains p (install_cmd tools))
       \<and> captured (sh h (install_cmd tools)) = (result, out, stderr)
       \<and> result \<noteq> 0
       \<and> \<not> contains ''Could not resolve'' stderr \<and> \<not> contains ''Failed to fetch'' stderr
       \<and> \<not> contains ''Permission denied'' stderr
       \<and> \<not> contains ''requires root privileges'' stderr
       \<and> stderr = pre @ ''Unable to locate package '' @ name @ rest
       \<and> name \<noteq> [] \<and> (\<forall>c \<in> set name. \<not> isspace c) \<and> (rest = [] \<or> isspace (hd rest))
       \<and> \<not> contains ''Unable to locate package '' (pre @ ''Unable to locate package'')"
  then have clean: "\<forall>p \<in> set dangerous_patterns. \<not> contains p (install_cmd tools)"
    and cap: "captured (sh h (install_cmd tools)) = (result, out, stderr)"
    and nz: "result \<noteq> 0"
    and quiet: "\<not> contains ''Could not resolve'' stderr" "\<not> contains ''Failed to fetch'' stderr"
      "\<not> contains ''Permission denied'' stderr" "\<not> contains ''requires root privileges'' stderr"
    and eq: "stderr = pre @ ''Unable to locate package '' @ name @ rest"
    and name: "name \<noteq> []" "\<forall>c \<in> set name. \<not> isspace c" "rest = [] \<or> isspace (hd rest)"
    and first: "\<not> contains ''Unable to locate package '' (pre @ ''Unable to locate package'')"
    by blast+
  have found: "search_unable_to_locate stderr = Some name"
    unfolding eq using name first by (rule search_unable_to_locate_first)
  have here: "contains ''Unable to locate package'' stderr"
    unfolding eq by (rule contains_unable_to_locate)
  from nz quiet here found show "fst (batch_install_tools sh tools h) =
            Inl (ToolInstallationError (''Package '' @ name @ '' not found in the repositories''))"
    by (simp add: batch_install_tools_clean [of tools sh h result out stderr, OF clean cap])
qed

text \<open>
  C3 as stated fails in two places: a batch whose command contains a dangerous substring
  issues no command at all (and does not succeed even where the shell would have), and
  stderr that contains ``Permission denied'' after ``Failed to fetch'' raises
  \<open>NetworkError\<close>, not \<open>PermissionError\<close>.
\<close>

theorem batch_install_tools_counterexample:
  "batch_install_tools (\<lambda>h c. Completed 0 [] []) [''mkfs''] [] = (Inl (security_error ''mkfs''), [])
   \<and> fst (batch_install_tools
            (\<lambda>h c. Completed 100 [] ''E: Failed to fetch http://x/y  Permission denied'')
            [''nmap''] [])
       = Inl (NetworkError ''Network error while installing tools: Could not fetch packages'')"
  by code_simp

theorem batch_install_tools_typed_outcome_witness:
  "(\<exists>m. batch_install_tools (\<lambda>h c. Completed 0 [] []) [''mkfs''] [] = (Inl (SecurityError m), []))
   \<and> snd (batch_install_tools (\<lambda>h c. Completed 100 [] ''E: Permission denied'')
            [''nmap'', ''wireshark''] [])
       = [''apt install -y nmap wireshark'']
   \<and> fst (batch_install_tools (\<lambda>h c. Completed 100 [] ''E: Permission denied'')
            [''nmap'', ''wireshark''] [])
       = Inl (PermissionError ''Permission denied while installing tools. Please run as root.'')
   \<and> fst (batch_install_tools (demo_shell [''nmap''] []) [''nmap'', ''totally-fake-pkg-xyz''] [])
       = Inl (ToolInstallationError ''Package totally-fake-pkg-xyz not found in the repositories'')"
proof -
  have bad: "\<exists>p \<in> set dangerous_patterns. contains p (install_cmd [''mkfs''])"
    by (simp add: dangerous_patterns_def install_cmd_def)
  have one: "\<exists>m. batch_install_tools (\<lambda>h c. Completed 0 [] []) [''mkfs''] []
                 = (Inl (SecurityError m), [])"
    using bad
      batch_install_tools_typed_outcome
        [where tools = "[''mkfs'']" and sh = "\<lambda>h c. Completed 0 [] []" and h = "[]"]
    by blast
  have clean2: "\<forall>p \<in> set dangerous_patterns. \<not> contains p (install_cmd [''nmap'', ''wireshark''])"
    by (simp add: dangerous_patterns_def install_cmd_def)
  have cap2: "captured ((\<lambda>h c. Completed 100 [] ''E: Permission denied'') []
                 (install_cmd [''nmap'', ''wireshark'']))
              = (100, [], ''E: Permission denied'')"
    by (simp add: strip_def isspace_def)
  have two: "snd (batch_install_tools (\<lambda>h c. Completed 100 [] ''E: Permission denied'')
                   [''nmap'', ''wireshark''] [])
               = [] @ [''apt install -y '' @ join '' '' [''nmap'', ''wireshark'']]
             \<and> fst (batch_install_tools (\<lambda>h c. Completed 100 [] ''E: Permission denied'')
                   [''nmap'', ''wireshark''] [])
               = Inl (PermissionError
                        ''Permission denied while installing tools. Please run as root.'')"
    using clean2 cap2
      batch_install_tools_typed_outcome
        [where tools = "[''nmap'', ''wireshark'']"
           and sh = "\<lambda>h c. Completed 100 [] ''E: Permission denied''" and h = "[]"
           and result = 100 and out = "[]" and stderr = "''E: Permission denied''"]
    by simp
  have clean3: "\<forall>p \<in> set dangerous_patterns.
                  \<not> contains p (install_cmd [''nmap'', ''totally-fake-pkg-xyz''])"
    by (simp add: dangerous_patterns_def install_cmd_def)
  have cap3: "captured (demo_shell [''nmap''] [] []
                 (install_cmd [''nmap'', ''totally-fake-pkg-xyz'']))
              = (100, [], ''E: '' @ ''Unable to locate package '' @ ''totally-fake-pkg-xyz'' @ [])"
    by code_simp
  have quiet3:
    "\<not> contains ''Could not resolve'' (''E: '' @ ''Unable to locate package '' @ ''totally-fake-pkg-xyz'' @ [])"
    "\<not> contains ''Failed to fetch'' (''E: '' @ ''Unable to locate package '' @ ''totally-fake-pkg-xyz'' @ [])"
    "\<not> contains ''Permission denied'' (''E: '' @ ''Unable to locate package '' @ ''totally-fake-pkg-xyz'' @ [])"
    "\<not> contains ''requires root privileges'' (''E: '' @ ''Unable to locate package '' @ ''totally-fake-pkg-xyz'' @ [])"
    by simp_all
  have name3: "''totally-fake-pkg-xyz'' \<noteq> []" "\<forall>c \<in> set ''totally-fake-pkg-xyz''. \<not> isspace c"
    by (simp_all add: isspace_def)
  have first3: "\<not> contains ''Unable to locate package '' (''E: '' @ ''Unable to locate package'')"
    by simp
  have misc3: "(100::int) \<noteq> 0" "([]::string) = [] \<or> isspace (hd [])"
    "''E: '' @ ''Unable to locate package '' @ ''totally-fake-pkg-xyz'' @ []
       = ''E: '' @ ''Unable to locate package '' @ ''totally-fake-pkg-xyz'' @ []"
    by simp_all
  have three: "fst (batch_install_tools (demo_shell [''nmap''] [])
                     [''nmap'', ''totally-fake-pkg-xyz''] [])
               = Inl (ToolInstallationError
                        (''Package '' @ ''totally-fake-pkg-xyz'' @ '' not found in the repositories''))"
    using clean3 cap3 quiet3 name3 first3 misc3
      batch_install_tools_typed_outcome
        [where tools = "[''nmap'', ''totally-fake-pkg-xyz'']"
           and sh = "demo_shell [''nmap''] []" and h = "[]"
           and result = 100 and out = "[]"
           and stderr = "''E: '' @ ''Unable to locate package '' @ ''totally-fake-pkg-xyz'' @ []"
           and pre = "''E: ''" and name = "''totally-fake-pkg-xyz''" and rest = "[]"]
    by blast
  from one two three show ?thesis
    by simp
qed

section \<open>The scenario with three packages, one of them missing\<close>

text \<open>
  C5 as stated fails. Three packages are at most three, so \<open>install_tools\<close> issues the
  single combined command. In a shell in which \<open>nmap\<close> and \<open>wireshark\<close> install and the
  third package cannot be located, that command fails as a whole, and the call raises
  \<open>ToolInstallationError\<close> instead of returning true.
\<close>

theorem install_three_with_missing_package_counterexample:
  "demo_shell [''nmap'', ''wireshark''] [] [] ''apt install -y nmap'' = Completed 0 [] []
   \<and> demo_shell [''nmap'', ''wireshark''] [] [] ''apt install -y wireshark'' = Completed 0 [] []
   \<and> demo_shell [''nmap'', ''wireshark''] [] [] ''apt install -y totally-fake-pkg-xyz''
       = Completed 100 [] ''E: Unable to locate package totally-fake-pkg-xyz''
   \<and> install_tools (demo_shell [''nmap'', ''wireshark''] []) (\<lambda>h. (Inr True, h)) KeyboardInterrupt
         [''nmap'', ''wireshark'', ''totally-fake-pkg-xyz''] True []
       = (Inl (ToolInstallationError
                 ''Package totally-fake-pkg-xyz not found in the repositories''),
          [''apt install -y nmap wireshark totally-fake-pkg-xyz''])"
  by code_simp

lemma install_cmd_three:
  "install_cmd [''nmap'', ''wireshark'', ''totally-fake-pkg-xyz'']
     = ''apt install -y nmap wireshark totally-fake-pkg-xyz''"
  by (simp add: install_cmd_def)

lemma install_cmd_three_clean:
  "\<forall>p \<in> set dangerous_patterns.
     \<not> contains p (install_cmd [''nmap'', ''wireshark'', ''totally-fake-pkg-xyz''])"
  by (simp add: dangerous_patterns_def install_cmd_def)

text \<open>
  C5 (as amended). Installing \<open>nmap\<close>, \<open>wireshark\<close> and \<open>totally-fake-pkg-xyz\<close> (the prompt
  skipped or not answered with \<open>n\<close>, the repository added) issues the one combined
  command; when it exits non-zero and the first ``Unable to locate package'' in its
  stderr names \<open>totally-fake-pkg-xyz\<close> (no network or permission text present), the call
  raises \<open>ToolInstallationError\<close> naming that package. No counts are produced.
\<close>

theorem install_tools_three_missing_package_raises:
  assumes confirm: "skip_confirmation
                    \<or> (\<exists>confirm. safe_input terminal = Inr confirm \<and> lower confirm \<noteq> ''n'')"
    and repo: "add_repository h = (Inr True, h1)"
    and cap: "captured (sh h1 ''apt install -y nmap wireshark totally-fake-pkg-xyz'')
                = (result, out, stderr)"
    and nz: "result \<noteq> 0"
    and quiet: "\<not> contains ''Could not resolve'' stderr" "\<not> contains ''Failed to fetch'' stderr"
      "\<not> contains ''Permission denied'' stderr" "\<not> contains ''requires root privileges'' stderr"
    and eq: "stderr = pre @ ''Unable to locate package '' @ ''totally-fake-pkg-xyz'' @ rest"
    and rest: "rest = [] \<or> isspace (hd rest)"
    and first: "\<not> contains ''Unable to locate package '' (pre @ ''Unable to locate package'')"
  shows "install_tools sh add_repository terminal
           [''nmap'', ''wireshark'', ''totally-fake-pkg-xyz''] skip_confirmation h
         = (Inl (ToolInstallationError
                   ''Package totally-fake-pkg-xyz not found in the repositories''),
            h1 @ [''apt install -y nmap wireshark totally-fake-pkg-xyz''])"
proof -
  have name: "''totally-fake-pkg-xyz'' \<noteq> []" "\<forall>c \<in> set ''totally-fake-pkg-xyz''. \<not> isspace c"
    by (simp_all add: isspace_def)
  have found: "search_unable_to_locate stderr = Some ''totally-fake-pkg-xyz''"
    unfolding eq using name rest first by (rule search_unable_to_locate_first)
  have here: "contains ''Unable to locate package'' stderr"
    unfolding eq by (rule contains_unable_to_locate)
  from cap have cap': "captured (sh h1 (install_cmd [''nmap'', ''wireshark'', ''totally-fake-pkg-xyz'']))
                = (result, out, stderr)"
    by (simp only: install_cmd_three)
  have batch: "batch_install_tools sh [''nmap'', ''wireshark'', ''totally-fake-pkg-xyz''] h1
          = (Inl (ToolInstallationError
                   ''Package totally-fake-pkg-xyz not found in the repositories''),
            h1 @ [''apt install -y nmap wireshark totally-fake-pkg-xyz''])"
    using nz quiet here found
    by (simp add: batch_install_tools_clean
                    [of "[''nmap'', ''wireshark'', ''totally-fake-pkg-xyz'']" sh h1 result out stderr,
                     OF install_cmd_three_clean cap']
                  install_cmd_three)
  from confirm show ?thesis
  proof
    assume skip_confirmation
    with repo batch show ?thesis
      by (simp add: install_tools_def)
  next
    assume "\<exists>confirm. safe_input terminal = Inr confirm \<and> lower confirm \<noteq> ''n''"
    with repo batch show ?thesis
      by (auto simp: install_tools_def)
  qed
qed

theorem install_tools_three_missing_package_raises_witness:
  "install_tools (demo_shell [''nmap'', ''wireshark''] []) (\<lambda>h. (Inr True, h @ [''apt update'']))
     (Typed ''y'') [''nmap'', ''wireshark'', ''totally-fake-pkg-xyz''] False []
   = (Inl (ToolInstallationError ''Package totally-fake-pkg-xyz not found in the repositories''),
      [''apt update'', ''apt install -y nmap wireshark totally-fake-pkg-xyz''])"
proof -
  have "safe_input (Typed ''y'') = Inr ''y'' \<and> lower ''y'' \<noteq> ''n''"
    by code_simp
  then have confirm:
    "False \<or> (\<exists>confirm. safe_input (Typed ''y'') = Inr confirm \<and> lower confirm \<noteq> ''n'')"
    by blast
  have cap: "captured (demo_shell [''nmap'', ''wireshark''] [] [''apt update'']
                ''apt install -y nmap wireshark totally-fake-pkg-xyz'')
             = (100, [], ''E: Unable to locate package totally-fake-pkg-xyz'')"
    by code_simp
  have quiet: "\<not> contains ''Could not resolve'' ''E: Unable to locate package totally-fake-pkg-xyz''"
    "\<not> contains ''Failed to fetch'' ''E: Unable to locate package totally-fake-pkg-xyz''"
    "\<not> contains ''Permission denied'' ''E: Unable to locate package totally-fake-pkg-xyz''"
    "\<not> contains ''requires root privileges'' ''E: Unable to locate package totally-fake-pkg-xyz''"
    by simp_all
  have first: "\<not> contains ''Unable to locate package '' (''E: '' @ ''Unable to locate package'')"
    by simp
  note inst = install_tools_three_missing_package_raises
      [where sh = "demo_shell [''nmap'', ''wireshark''] []"
         and add_repository = "\<lambda>h. (Inr True, h @ [''apt update''])"
         and terminal = "Typed ''y''" and skip_confirmation = False
         and h = "[]" and ?h1.0 = "[''apt update'']"
         and result = 100 and out = "[]"
         and stderr = "''E: Unable to locate package totally-fake-pkg-xyz''"
         and pre = "''E: ''" and rest = "[]"]
  have "install_tools (demo_shell [''nmap'', ''wireshark''] [])
          (\<lambda>h. (Inr True, h @ [''apt update''])) (Typed ''y'')
          [''nmap'', ''wireshark'', ''totally-fake-pkg-xyz''] False []
        = (Inl (ToolInstallationError ''Package totally-fake-pkg-xyz not found in the repositories''),
           [''apt update''] @ [''apt install -y nmap wireshark totally-fake-pkg-xyz''])"
  proof (rule inst)
    show "False \<or> (\<exists>confirm. safe_input (Typed ''y'') = Inr confirm \<and> lower confirm \<noteq> ''n'')"
      by (rule confirm)
    show "(Inr True, [] @ [''apt update'']) = (Inr True, [''apt update''])"
      by simp
    show "captured (demo_shell [''nmap'', ''wireshark''] [] [''apt update'']
                ''apt install -y nmap wireshark totally-fake-pkg-xyz'')
             = (100, [], ''E: Unable to locate package totally-fake-pkg-xyz'')"
      by (rule cap)
    show "(100::int) \<noteq> 0"
      by simp
    show "''E: Unable to locate package totally-fake-pkg-xyz''
              = ''E: '' @ ''Unable to locate package '' @ ''totally-fake-pkg-xyz'' @ []"
      by simp
    show "[] = [] \<or> isspace (hd [])"
      by simp
  qed (rule quiet first)+
  then show ?thesis
    by simp
qed

section \<open>Installing a large batch\<close>

lemma install_single_tool_nonzero:
  assumes "run_command sh (''apt install -y '' @ t) True True h = (Inr (result, out, stderr), h1)"
    and "result \<noteq> 0"
  shows "install_single_tool sh n t (p, h) =
           (if fst (try_installation_fallbacks sh t stderr h1)
            then (True, p\<lparr>completed_tools := completed_tools p + 1\<rparr>,
                  snd (try_installation_fallbacks sh t stderr h1))
            else if is_skippable_error stderr
            then (True,
                  p\<lparr>completed_tools := completed_tools p + 1,
                    skipped_tools := skipped_tools p @ [(t, get_error_reason stderr)]\<rparr>,
                  snd (try_installation_fallbacks sh t stderr h1))
            else (False,
                  p\<lparr>completed_tools := completed_tools p + 1,
                    failed_tools := failed_tools p @ [(t, stderr)]\<rparr>,
                  snd (try_installation_fallbacks sh t stderr h1)))"
  using assms by (simp add: install_single_tool_def Let_def split: prod.splits)

lemma install_single_tool_failed:
  assumes "install_single_tool sh n t (p, h) = (r, p', h')"
  shows "map fst (failed_tools p') = map fst (failed_tools p) @ (if r then [] else [t])"
  using assms
  by (auto simp: install_single_tool_def Let_def split: prod.splits sum.splits if_splits)

lemma install_single_tool_skipped:
  assumes "install_single_tool sh n t (p, h) = (r, p', h')"
  shows "length (skipped_tools p') \<le> length (skipped_tools p) + (if r then 1 else 0)"
  using assms
  by (auto simp: install_single_tool_def Let_def split: prod.splits sum.splits if_splits)

lemma executor_map_length:
  "executor_map func items s = (results, s') \<Longrightarrow> length results = length items"
  by (induction items arbitrary: s results s') (auto split: prod.splits)

lemma sum_bools_Cons: "sum_bools (r # rs) = (if r then 1 else 0) + sum_bools rs"
  by (simp add: sum_bools_def)

lemma sum_bools_failed: "sum_bools rs + length (filter (\<lambda>r. \<not> r) rs) = length rs"
  by (induction rs) (simp_all add: sum_bools_def)

lemma executor_map_install_failed:
  assumes "executor_map (install_single_tool sh n) tools (p, h) = (results, p', h')"
  shows "map fst (failed_tools p')
           = map fst (failed_tools p) @ map fst (filter (\<lambda>(t, r). \<not> r) (zip tools results))"
  using assms
proof (induction tools arbitrary: p h results p' h')
  case Nil
  then show ?case by simp
next
  case (Cons t tools)
  obtain r p1 h1 where one: "install_single_tool sh n t (p, h) = (r, p1, h1)"
    by (metis prod_cases3)
  obtain rs p2 h2 where rest: "executor_map (install_single_tool sh n) tools (p1, h1) = (rs, p2, h2)"
    by (metis prod_cases3)
  from Cons.prems one rest have eq: "results = r # rs" "p' = p2" "h' = h2"
    by simp_all
  from Cons.IH [OF rest] install_single_tool_failed [OF one] show ?case
    unfolding eq by simp
qed

lemma executor_map_install_skipped:
  assumes "executor_map (install_single_tool sh n) tools (p, h) = (results, p', h')"
  shows "length (skipped_tools p') \<le> length (skipped_tools p) + sum_bools results"
  using assms
proof (induction tools arbitrary: p h results p' h')
  case Nil
  then show ?case by simp
next
  case (Cons t tools)
  obtain r p1 h1 where one: "install_single_tool sh n t (p, h) = (r, p1, h1)"
    by (metis prod_cases3)
  obtain rs p2 h2 where rest: "executor_map (install_single_tool sh n) tools (p1, h1) = (rs, p2, h2)"
    by (metis prod_cases3)
  from Cons.prems one rest have eq: "results = r # rs" "p' = p2" "h' = h2"
    by simp_all
  from Cons.IH [OF rest] install_single_tool_skipped [OF one] show ?case
    unfolding eq by (simp add: sum_bools_Cons)
qed

lemma length_filter_zip_not:
  "length rs = length ts \<Longrightarrow>
     length (filter (\<lambda>(t, r). \<not> r) (zip ts rs)) = length (filter (\<lambda>r. \<not> r) rs)"
  by (induction ts rs rule: list_induct2') simp_all

lemma install_all_counts:
  assumes "install_all sh tools h = (results, p, h')"
  shows "sum_bools results + length (failed_tools p) = length tools"
    and "length (skipped_tools p) \<le> sum_bools results"
proof -
  from assms have run: "executor_map (install_single_tool sh (length tools)) tools
      (\<lparr>completed_tools = 0, failed_tools = [], skipped_tools = []\<rparr>, h) = (results, p, h')"
    by (simp add: install_all_def)
  have len: "length results = length tools"
    using run by (rule executor_map_length)
  from executor_map_install_failed [OF run]
  have "length (map fst (failed_tools p))
          = length (map fst (filter (\<lambda>(t, r). \<not> r) (zip tools results)))"
    by simp
  then have "length (failed_tools p) = length (filter (\<lambda>r. \<not> r) results)"
    using len by (simp add: length_filter_zip_not)
  with sum_bools_failed [of results] len
  show "sum_bools results + length (failed_tools p) = length tools"
    by simp
  from executor_map_install_skipped [OF run]
  show "length (skipped_tools p) \<le> sum_bools results"
    by simp
qed

text \<open>
  The verdict on counts that a run can produce (the installed and the failed tools add up
  to all tools, and no more tools are skipped than installed). When as many tools failed
  as were skipped, the verdict is success whatever the rate; otherwise, with at least one
  failure, it is decided by the rate of 30 percent.
\<close>

lemma install_verdict_failed_eq_skipped:
  assumes "successful + failed = total_tools" and "failed = skipped" and "skipped < total_tools"
  shows "install_verdict total_tools successful failed skipped = Inr True"
proof -
  from assms have "int total_tools - int skipped \<noteq> 0"
    and "int successful = int total_tools - int skipped"
    by simp_all
  then show ?thesis
    by (simp add: install_verdict_def Let_def)
qed

lemma install_verdict_threshold:
  assumes "successful + failed = total_tools" and "skipped \<le> successful"
    and "failed \<noteq> skipped" and "0 < failed"
  shows "install_verdict total_tools successful failed skipped =
           (if 10 * failed \<le> 3 * (total_tools - skipped) then Inr True
            else Inl (ToolInstallationError
                        (''Error during parallel installation: ''
                         @ ''Too many installation failures: '' @ str_nat failed
                         @ ''/'' @ str_int (int total_tools - int skipped)
                         @ '' installable tools failed'')))"
proof -
  from assms have pos: "0 < int total_tools - int skipped"
    by simp
  from assms have ne: "int successful \<noteq> int total_tools - int skipped"
    by linarith
  have "((of_nat failed :: rat) / of_int (int total_tools - int skipped) \<le> 3 / 10)
          = (10 * failed \<le> 3 * (total_tools - skipped))"
  proof -
    from pos have "0 < (of_int (int total_tools - int skipped) :: rat)"
      by simp
    then have "((of_nat failed :: rat) / of_int (int total_tools - int skipped) \<le> 3 / 10)
          = (10 * (of_nat failed :: rat) \<le> 3 * of_int (int total_tools - int skipped))"
      by (simp add: field_simps)
    also have "\<dots> = ((of_int (10 * int failed) :: rat)
                       \<le> of_int (3 * (int total_tools - int skipped)))"
      by simp
    also have "\<dots> = (10 * int failed \<le> 3 * (int total_tools - int skipped))"
      by (simp only: of_int_le_iff)
    also have "\<dots> = (10 * failed \<le> 3 * (total_tools - skipped))"
    proof -
      from assms have "skipped \<le> total_tools"
        by simp
      then have "int total_tools - int skipped = int (total_tools - skipped)"
        by simp
      then show ?thesis
        by arith
    qed
    finally show ?thesis .
  qed
  with pos ne assms(4) show ?thesis
    by (simp add: install_verdict_def Let_def)
qed

text \<open>
  C1. The three counts of the installation summary do not partition the input. The
  worker returns \<open>True\<close> for a skipped tool, \<open>sum(results)\<close> counts it as installed, and
  it is counted again as skipped: by \<open>install_all_counts\<close> the count of installed tools
  and the count of failed tools alone add up to the number of tools. With four tools of
  which one cannot be located the summary reports 4 installed, 1 skipped and 0 failed.
\<close>

theorem parallel_install_counts_overlap:
  "(case install_all (demo_shell [''nmap'', ''wireshark'', ''hydra''] [])
           [''nmap'', ''wireshark'', ''hydra'', ''totally-fake-pkg-xyz''] [] of
      (results, p, h') \<Rightarrow>
        (sum_bools results, map fst (skipped_tools p), map fst (failed_tools p)))
   = (4, [''totally-fake-pkg-xyz''], [])"
  by code_simp

text \<open>
  C2. With four tools of which one is skipped and one fails, one of the three installable
  tools has failed, which is more than 30 percent; but the count of installed tools, which
  includes the skipped one, equals the number of installable tools, so the branch ``all
  installable tools were installed successfully'' returns true before the rate is looked
  at.
\<close>

theorem parallel_install_threshold_bypassed:
  "(case install_all (demo_shell [''nmap'', ''wireshark''] [''hydra''])
           [''nmap'', ''wireshark'', ''hydra'', ''totally-fake-pkg-xyz''] [] of
      (results, p, h') \<Rightarrow>
        (sum_bools results, map fst (skipped_tools p), map fst (failed_tools p)))
   = (3, [''totally-fake-pkg-xyz''], [''hydra''])
   \<and> \<not> ((of_nat 1 :: rat) / of_int (int 4 - int 1) \<le> 3 / 10)
   \<and> fst (parallel_install_tools (demo_shell [''nmap'', ''wireshark''] [''hydra''])
            [''nmap'', ''wireshark'', ''hydra'', ''totally-fake-pkg-xyz''] [])
       = Inr True"
  by code_simp

text \<open>
  C4 as stated fails: the worker tries the fallback strategies before it looks at the
  error text. Here \<open>enum4linux\<close> cannot be located, which is a skippable error, but its
  alternative name \<open>enum4linux-ng\<close> installs, so the tool counts as installed and the
  list of skipped tools stays empty.
\<close>

theorem skippable_with_fallback_counterexample:
  "fst (captured (demo_shell [''nmap'', ''wireshark'', ''hydra'', ''enum4linux-ng''] []
                    [''apt install -y nmap'', ''apt install -y wireshark'', ''apt install -y hydra'']
                    ''apt install -y enum4linux'')) = 100
   \<and> is_skippable_error
        (snd (snd (captured (demo_shell [''nmap'', ''wireshark'', ''hydra'', ''enum4linux-ng''] []
                    [''apt install -y nmap'', ''apt install -y wireshark'', ''apt install -y hydra'']
                    ''apt install -y enum4linux''))))
   \<and> (case install_all (demo_shell [''nmap'', ''wireshark'', ''hydra'', ''enum4linux-ng''] [])
           [''nmap'', ''wireshark'', ''hydra'', ''enum4linux''] [] of
        (results, p, h') \<Rightarrow> (results, skipped_tools p, failed_tools p))
      = ([True, True, True, True], [], [])"
  by code_simp

text \<open>
  C4 (as amended). A tool whose install command exits non-zero with a skippable error text
  is never recorded as failed: its worker returns \<open>True\<close> and leaves \<open>failed_tools\<close> as it
  was; the tool is appended to \<open>skipped_tools\<close>, with the reason for its error text, unless
  a fallback strategy installs it. The failed tools of a batch are exactly the tools whose
  worker returned \<open>False\<close>, and their number is the failure count from which the verdict
  is computed.
\<close>

theorem skippable_failure_is_never_failed:
  "(run_command sh (''apt install -y '' @ tool_name) True True h = (Inr (result, out, stderr), h1)
      \<and> result \<noteq> 0 \<and> is_skippable_error stderr
     \<longrightarrow> fst (install_single_tool sh total_tools tool_name (p, h))
         \<and> failed_tools (fst (snd (install_single_tool sh total_tools tool_name (p, h))))
             = failed_tools p
         \<and> skipped_tools (fst (snd (install_single_tool sh total_tools tool_name (p, h))))
             = (if fst (try_installation_fallbacks sh tool_name stderr h1) then skipped_tools p
                else skipped_tools p @ [(tool_name, get_error_reason stderr)]))
   \<and> (install_all sh tools h = (results, q, h')
     \<longrightarrow> map fst (failed_tools q) = map fst (filter (\<lambda>(t, r). \<not> r) (zip tools results))
         \<and> fst (parallel_install_tools sh tools h)
             = install_verdict (length tools) (sum_bools results)
                 (length (filter (\<lambda>(t, r). \<not> r) (zip tools results)))
                 (length (skipped_tools q)))"
proof (intro conjI impI)
  assume a: "run_command sh (''apt install -y '' @ tool_name) True True h
               = (Inr (result, out, stderr), h1)
             \<and> result \<noteq> 0 \<and> is_skippable_error stderr"
  then have run: "run_command sh (''apt install -y '' @ tool_name) True True h
               = (Inr (result, out, stderr), h1)"
    and nz: "result \<noteq> 0" and skip: "is_skippable_error stderr"
    by blast+
  note w = install_single_tool_nonzero [OF run nz, of total_tools p]
  from skip show "fst (install_single_tool sh total_tools tool_name (p, h))"
    by (simp add: w)
  from skip show "failed_tools (fst (snd (install_single_tool sh total_tools tool_name (p, h))))
             = failed_tools p"
    by (simp add: w)
  from skip show "skipped_tools (fst (snd (install_single_tool sh total_tools tool_name (p, h))))
             = (if fst (try_installation_fallbacks sh tool_name stderr h1) then skipped_tools p
                else skipped_tools p @ [(tool_name, get_error_reason stderr)])"
    by (simp add: w)
next
  assume all: "install_all sh tools h = (results, q, h')"
  then have run: "executor_map (install_single_tool sh (length tools)) tools
      (\<lparr>completed_tools = 0, failed_tools = [], skipped_tools = []\<rparr>, h) = (results, q, h')"
    by (simp add: install_all_def)
  from executor_map_install_failed [OF run]
  show names: "map fst (failed_tools q) = map fst (filter (\<lambda>(t, r). \<not> r) (zip tools results))"
    by simp
  then have "length (map fst (failed_tools q))
               = length (map fst (filter (\<lambda>(t, r). \<not> r) (zip tools results)))"
    by (rule arg_cong)
  then have "length (failed_tools q) = length (filter (\<lambda>(t, r). \<not> r) (zip tools results))"
    by simp
  with all show "fst (parallel_install_tools sh tools h)
             = install_verdict (length tools) (sum_bools results)
                 (length (filter (\<lambda>(t, r). \<not> r) (zip tools results)))
                 (length (skipped_tools q))"
    by (simp add: parallel_install_tools_def Let_def)
qed

theorem skippable_failure_is_never_failed_witness:
  "fst (install_single_tool (demo_shell [''nmap''] []) 4 ''totally-fake-pkg-xyz''
          (\<lparr>completed_tools = 1, failed_tools = [], skipped_tools = []\<rparr>, [''apt install -y nmap'']))
   \<and> failed_tools (fst (snd (install_single_tool (demo_shell [''nmap''] []) 4 ''totally-fake-pkg-xyz''
          (\<lparr>completed_tools = 1, failed_tools = [], skipped_tools = []\<rparr>, [''apt install -y nmap''])))) = []
   \<and> skipped_tools (fst (snd (install_single_tool (demo_shell [''nmap''] []) 4 ''totally-fake-pkg-xyz''
          (\<lparr>completed_tools = 1, failed_tools = [], skipped_tools = []\<rparr>, [''apt install -y nmap'']))))
       = [(''totally-fake-pkg-xyz'', ''Package not found in repositories'')]
   \<and> fst (parallel_install_tools (demo_shell [''nmap'', ''wireshark''] [''hydra''])
            [''nmap'', ''wireshark'', ''hydra'', ''totally-fake-pkg-xyz''] [])
       = install_verdict 4 3 1 1"
proof -
  let ?sh = "demo_shell [''nmap''] []"
  let ?err = "''E: Unable to locate package totally-fake-pkg-xyz''"
  let ?h1 = "[''apt install -y nmap'', ''apt install -y totally-fake-pkg-xyz'']"
  let ?p = "\<lparr>completed_tools = 1, failed_tools = [], skipped_tools = []\<rparr>"
  have run: "run_command ?sh (''apt install -y '' @ ''totally-fake-pkg-xyz'') True True
               [''apt install -y nmap''] = (Inr (100, [], ?err), ?h1)"
    by code_simp
  have skip: "is_skippable_error ?err"
    by code_simp
  have fb: "\<not> fst (try_installation_fallbacks ?sh ''totally-fake-pkg-xyz'' ?err ?h1)"
    by code_simp
  have reason: "get_error_reason ?err = ''Package not found in repositories''"
    by code_simp
  have nz: "(100::int) \<noteq> 0"
    by simp
  note one = skippable_failure_is_never_failed
      [where sh = "?sh" and tool_name = "''totally-fake-pkg-xyz''"
         and h = "[''apt install -y nmap'']" and result = 100 and out = "[]" and stderr = "?err"
         and ?h1.0 = "?h1" and total_tools = 4 and p = "?p", THEN conjunct1, rule_format,
       OF conjI [OF run conjI [OF nz skip]]]
  let ?sh2 = "demo_shell [''nmap'', ''wireshark''] [''hydra'']"
  let ?tools = "[''nmap'', ''wireshark'', ''hydra'', ''totally-fake-pkg-xyz'']"
  obtain results q h' where all: "install_all ?sh2 ?tools [] = (results, q, h')"
    by (metis prod_cases3)
  have ev: "(case install_all ?sh2 ?tools [] of
              (results, q, h') \<Rightarrow> (results, length (skipped_tools q))) = ([True, True, False, True], 1)"
    by code_simp
  with all have res: "results = [True, True, False, True]" "length (skipped_tools q) = 1"
    by simp_all
  note two = skippable_failure_is_never_failed
      [where sh = "?sh2" and tools = "?tools" and h = "[]" and results = results and q = q
         and h' = h', THEN conjunct2, rule_format, OF all]
  have "fst (parallel_install_tools ?sh2 ?tools []) = install_verdict 4 3 1 1"
    using two res by (simp add: sum_bools_def eval_nat_numeral)
  with one fb reason show ?thesis
    by simp
qed

section \<open>Classification and the error text\<close>

lemma install_single_tool_returned:
  assumes "run_command sh (''apt install -y '' @ t) True True h = (Inr (result, out, stderr), h1)"
  shows "fst (install_single_tool sh n t (p, h))
           = (result = 0 \<or> fst (try_installation_fallbacks sh t stderr h1)
              \<or> is_skippable_error stderr)"
    and "skipped_tools (fst (snd (install_single_tool sh n t (p, h))))
           = skipped_tools p
             @ (if result \<noteq> 0 \<and> \<not> fst (try_installation_fallbacks sh t stderr h1)
                   \<and> is_skippable_error stderr
                then [(t, get_error_reason stderr)] else [])"
    and "failed_tools (fst (snd (install_single_tool sh n t (p, h))))
           = failed_tools p
             @ (if result \<noteq> 0 \<and> \<not> fst (try_installation_fallbacks sh t stderr h1)
                   \<and> \<not> is_skippable_error stderr
                then [(t, stderr)] else [])"
proof -
  show "fst (install_single_tool sh n t (p, h))
           = (result = 0 \<or> fst (try_installation_fallbacks sh t stderr h1)
              \<or> is_skippable_error stderr)"
  proof (cases "result = 0")
    case True
    with assms show ?thesis
      by (simp add: install_single_tool_def)
  next
    case False
    then show ?thesis
      by (simp add: install_single_tool_nonzero [OF assms False])
  qed
  show "skipped_tools (fst (snd (install_single_tool sh n t (p, h))))
           = skipped_tools p
             @ (if result \<noteq> 0 \<and> \<not> fst (try_installation_fallbacks sh t stderr h1)
                   \<and> is_skippable_error stderr
                then [(t, get_error_reason stderr)] else [])"
  proof (cases "result = 0")
    case True
    with assms show ?thesis
      by (simp add: install_single_tool_def)
  next
    case False
    then show ?thesis
      by (simp add: install_single_tool_nonzero [OF assms False])
  qed
  show "failed_tools (fst (snd (install_single_tool sh n t (p, h))))
           = failed_tools p
             @ (if result \<noteq> 0 \<and> \<not> fst (try_installation_fallbacks sh t stderr h1)
                   \<and> \<not> is_skippable_error stderr
                then [(t, stderr)] else [])"
  proof (cases "result = 0")
    case True
    with assms show ?thesis
      by (simp add: install_single_tool_def)
  next
    case False
    then show ?thesis
      by (simp add: install_single_tool_nonzero [OF assms False])
  qed
qed

text \<open>
  C8 as stated fails for the outcome of a package: the error text alone does not decide
  it. With the same text ``Unable to locate package alpha'' the tool is skipped in a
  shell where no alternative name installs, installed where \<open>alpha-kali\<close> installs, and
  neither skipped nor failed when the command exits with code 0. Likewise the same dpkg
  error is a failure in one shell and an installation in another.
\<close>

theorem same_stderr_different_classification_counterexample:
  "snd (snd (captured (demo_shell [] [] [] ''apt install -y alpha'')))
     = ''E: Unable to locate package alpha''
   \<and> snd (snd (captured (demo_shell [''alpha-kali''] [] [] ''apt install -y alpha'')))
     = ''E: Unable to locate package alpha''
   \<and> skipped_tools (fst (snd (install_single_tool (demo_shell [] []) 4 ''alpha''
        (\<lparr>completed_tools = 0, failed_tools = [], skipped_tools = []\<rparr>, []))))
     = [(''alpha'', ''Package not found in repositories'')]
   \<and> skipped_tools (fst (snd (install_single_tool (demo_shell [''alpha-kali''] []) 4 ''alpha''
        (\<lparr>completed_tools = 0, failed_tools = [], skipped_tools = []\<rparr>, []))))
     = []
   \<and> skipped_tools (fst (snd (install_single_tool
        (\<lambda>h c. Completed 0 [] ''E: Unable to locate package alpha'') 4 ''alpha''
        (\<lparr>completed_tools = 0, failed_tools = [], skipped_tools = []\<rparr>, []))))
     = []
   \<and> snd (snd (captured (demo_shell [] [''beta''] [] ''apt install -y beta'')))
     = snd (snd (captured (demo_shell [''beta-kali''] [''beta''] [] ''apt install -y beta'')))
   \<and> map fst (failed_tools (fst (snd (install_single_tool (demo_shell [] [''beta'']) 4 ''beta''
        (\<lparr>completed_tools = 0, failed_tools = [], skipped_tools = []\<rparr>, [])))))
     = [''beta'']
   \<and> failed_tools (fst (snd (install_single_tool (demo_shell [''beta-kali''] [''beta'']) 4 ''beta''
        (\<lparr>completed_tools = 0, failed_tools = [], skipped_tools = []\<rparr>, []))))
     = []"
  by code_simp

text \<open>
  C8 (as amended). The outcome of a package is a function of the error text together
  with whether the install command exited with code 0 and whether a fallback strategy
  installed the tool. Two runs of the install worker that agree on these, in any two
  shells, with any histories, tool names and counters, return the same verdict and record
  the same reasons and the same error texts. Where the command failed and no fallback
  installed the tool, the verdict is \<open>is_skippable_error\<close> of the text, the reason
  recorded for a skipped tool is \<open>get_error_reason\<close> of the text, and a failed tool is
  recorded with the text itself.
\<close>

theorem classification_same_for_same_stderr_and_outcome:
  assumes run1: "run_command sh1 (''apt install -y '' @ tool1) True True h1
                   = (Inr (result1, out1, stderr), k1)"
    and run2: "run_command sh2 (''apt install -y '' @ tool2) True True h2
                   = (Inr (result2, out2, stderr), k2)"
    and exit: "(result1 = 0) = (result2 = 0)"
    and fallback: "result1 \<noteq> 0 \<longrightarrow>
                     fst (try_installation_fallbacks sh1 tool1 stderr k1)
                       = fst (try_installation_fallbacks sh2 tool2 stderr k2)"
  shows "\<exists>verdict reasons errors.
           fst (install_single_tool sh1 n1 tool1 (p1, h1)) = verdict
           \<and> fst (install_single_tool sh2 n2 tool2 (p2, h2)) = verdict
           \<and> skipped_tools (fst (snd (install_single_tool sh1 n1 tool1 (p1, h1))))
               = skipped_tools p1 @ map (Pair tool1) reasons
           \<and> skipped_tools (fst (snd (install_single_tool sh2 n2 tool2 (p2, h2))))
               = skipped_tools p2 @ map (Pair tool2) reasons
           \<and> failed_tools (fst (snd (install_single_tool sh1 n1 tool1 (p1, h1))))
               = failed_tools p1 @ map (Pair tool1) errors
           \<and> failed_tools (fst (snd (install_single_tool sh2 n2 tool2 (p2, h2))))
               = failed_tools p2 @ map (Pair tool2) errors
           \<and> (result1 \<noteq> 0 \<and> \<not> fst (try_installation_fallbacks sh1 tool1 stderr k1)
                \<longrightarrow> verdict = is_skippable_error stderr
                    \<and> reasons = (if is_skippable_error stderr
                                  then [get_error_reason stderr] else [])
                    \<and> errors = (if is_skippable_error stderr then [] else [stderr]))"
proof -
  let ?fb1 = "fst (try_installation_fallbacks sh1 tool1 stderr k1)"
  let ?verdict = "result1 = 0 \<or> ?fb1 \<or> is_skippable_error stderr"
  let ?reasons = "if result1 \<noteq> 0 \<and> \<not> ?fb1 \<and> is_skippable_error stderr
                  then [get_error_reason stderr] else []"
  let ?errors = "if result1 \<noteq> 0 \<and> \<not> ?fb1 \<and> \<not> is_skippable_error stderr
                 then [stderr] else []"
  note one = install_single_tool_returned [OF run1, of n1 p1]
  note two = install_single_tool_returned [OF run2, of n2 p2]
  have a: "fst (install_single_tool sh1 n1 tool1 (p1, h1)) = ?verdict"
    by (simp add: one)
  have b: "fst (install_single_tool sh2 n2 tool2 (p2, h2)) = ?verdict"
    using exit fallback by (auto simp: two)
  have c: "skipped_tools (fst (snd (install_single_tool sh1 n1 tool1 (p1, h1))))
             = skipped_tools p1 @ map (Pair tool1) ?reasons"
    by (simp add: one)
  have d: "skipped_tools (fst (snd (install_single_tool sh2 n2 tool2 (p2, h2))))
             = skipped_tools p2 @ map (Pair tool2) ?reasons"
    using exit fallback by (auto simp: two)
  have e: "failed_tools (fst (snd (install_single_tool sh1 n1 tool1 (p1, h1))))
             = failed_tools p1 @ map (Pair tool1) ?errors"
    by (simp add: one)
  have f: "failed_tools (fst (snd (install_single_tool sh2 n2 tool2 (p2, h2))))
             = failed_tools p2 @ map (Pair tool2) ?errors"
    using exit fallback by (auto simp: two)
  have g: "result1 \<noteq> 0 \<and> \<not> ?fb1
             \<longrightarrow> ?verdict = is_skippable_error stderr
                 \<and> ?reasons = (if is_skippable_error stderr then [get_error_reason stderr] else [])
                 \<and> ?errors = (if is_skippable_error stderr then [] else [stderr])"
    by simp
  from a b c d e f g show ?thesis
    by blast
qed

theorem classification_same_for_same_stderr_and_outcome_witness:
  "fst (install_single_tool (\<lambda>h c. Completed 100 [] ''E: Package x has no installation candidate'')
          4 ''alpha'' (\<lparr>completed_tools = 0, failed_tools = [], skipped_tools = []\<rparr>, []))
     = fst (install_single_tool
            (\<lambda>h c. Completed 1 ''Reading package lists...''
                      (''  E: Package x has no installation candidate'' @ [CHR 0x0A]))
            9 ''beta''
            (\<lparr>completed_tools = 3, failed_tools = [(''gamma'', ''E: no'')], skipped_tools = []\<rparr>,
             [''apt install -y gamma'']))
   \<and> map snd (skipped_tools (fst (snd (install_single_tool
            (\<lambda>h c. Completed 100 [] ''E: Package x has no installation candidate'')
            4 ''alpha'' (\<lparr>completed_tools = 0, failed_tools = [], skipped_tools = []\<rparr>, [])))))
       = map snd (skipped_tools (fst (snd (install_single_tool
            (\<lambda>h c. Completed 1 ''Reading package lists...''
                      (''  E: Package x has no installation candidate'' @ [CHR 0x0A]))
            9 ''beta''
            (\<lparr>completed_tools = 3, failed_tools = [(''gamma'', ''E: no'')], skipped_tools = []\<rparr>,
             [''apt install -y gamma''])))))
   \<and> map snd (skipped_tools (fst (snd (install_single_tool
            (\<lambda>h c. Completed 100 [] ''E: Package x has no installation candidate'')
            4 ''alpha'' (\<lparr>completed_tools = 0, failed_tools = [], skipped_tools = []\<rparr>, [])))))
       = [get_error_reason ''E: Package x has no installation candidate'']"
proof -
  let ?sh1 = "\<lambda>h c. Completed 100 [] ''E: Package x has no installation candidate''"
  let ?sh2 = "\<lambda>h c. Completed 1 ''Reading package lists...''
                      (''  E: Package x has no installation candidate'' @ [CHR 0x0A])"
  let ?err = "''E: Package x has no installation candidate''"
  let ?p1 = "\<lparr>completed_tools = 0, failed_tools = [], skipped_tools = []\<rparr>"
  let ?p2 = "\<lparr>completed_tools = 3, failed_tools = [(''gamma'', ''E: no'')], skipped_tools = []\<rparr>"
  have run1: "run_command ?sh1 (''apt install -y '' @ ''alpha'') True True []
                = (Inr (100, [], ?err), [''apt install -y alpha''])"
    by code_simp
  have run2: "run_command ?sh2 (''apt install -y '' @ ''beta'') True True [''apt install -y gamma'']
                = (Inr (1, ''Reading package lists...'', ?err),
                   [''apt install -y gamma'', ''apt install -y beta''])"
    by code_simp
  have exit: "((100::int) = 0) = ((1::int) = 0)"
    by simp
  have fb1: "\<not> fst (try_installation_fallbacks ?sh1 ''alpha'' ?err [''apt install -y alpha''])"
    by code_simp
  have fb2: "\<not> fst (try_installation_fallbacks ?sh2 ''beta'' ?err
                       [''apt install -y gamma'', ''apt install -y beta''])"
    by code_simp
  from fb1 fb2 have fallback: "(100::int) \<noteq> 0 \<longrightarrow>
      fst (try_installation_fallbacks ?sh1 ''alpha'' ?err [''apt install -y alpha''])
        = fst (try_installation_fallbacks ?sh2 ''beta'' ?err
                 [''apt install -y gamma'', ''apt install -y beta''])"
    by blast
  have skip: "is_skippable_error ?err"
    by code_simp
  have nz: "(100::int) \<noteq> 0"
    by simp
  from classification_same_for_same_stderr_and_outcome
         [OF run1 run2 exit fallback, of 4 ?p1 9 ?p2]
  obtain verdict reasons errors where
    v1: "fst (install_single_tool ?sh1 4 ''alpha'' (?p1, [])) = verdict"
    and v2: "fst (install_single_tool ?sh2 9 ''beta'' (?p2, [''apt install -y gamma''])) = verdict"
    and s1: "skipped_tools (fst (snd (install_single_tool ?sh1 4 ''alpha'' (?p1, []))))
               = skipped_tools ?p1 @ map (Pair ''alpha'') reasons"
    and s2: "skipped_tools (fst (snd (install_single_tool ?sh2 9 ''beta''
                                        (?p2, [''apt install -y gamma'']))))
               = skipped_tools ?p2 @ map (Pair ''beta'') reasons"
    and ex: "(100::int) \<noteq> 0
               \<and> \<not> fst (try_installation_fallbacks ?sh1 ''alpha'' ?err [''apt install -y alpha''])
             \<longrightarrow> verdict = is_skippable_error ?err
                 \<and> reasons = (if is_skippable_error ?err then [get_error_reason ?err] else [])
                 \<and> errors = (if is_skippable_error ?err then [] else [?err])"
    by blast
  from ex nz fb1 skip have r: "reasons = [get_error_reason ?err]"
    by simp
  from v1 v2 have "fst (install_single_tool ?sh1 4 ''alpha'' (?p1, []))
                     = fst (install_single_tool ?sh2 9 ''beta'' (?p2, [''apt install -y gamma'']))"
    by simp
  moreover from s1 s2
  have "map snd (skipped_tools (fst (snd (install_single_tool ?sh1 4 ''alpha'' (?p1, [])))))
          = map snd (skipped_tools (fst (snd (install_single_tool ?sh2 9 ''beta''
                                                (?p2, [''apt install -y gamma''])))))"
    by (simp add: comp_def)
  moreover from s1 r
  have "map snd (skipped_tools (fst (snd (install_single_tool ?sh1 4 ''alpha'' (?p1, [])))))
          = [get_error_reason ?err]"
    by simp
  ultimately show ?thesis
    by blast
qed

section \<open>Removing and upgrading\<close>

lemma executor_map_failed_names:
  assumes step: "\<And>t s r s'. func t s = (r, s') \<Longrightarrow> names s' = names s @ (if r then [] else [t])"
    and run: "executor_map func tools s = (results, s')"
  shows "names s' = names s @ map fst (filter (\<lambda>(t, r). \<not> r) (zip tools results))"
  using run
proof (induction tools arbitrary: s results s')
  case Nil
  then show ?case by simp
next
  case (Cons t tools)
  obtain r s1 where one: "func t s = (r, s1)"
    by (metis surj_pair)
  obtain rs s2 where rest: "executor_map func tools s1 = (rs, s2)"
    by (metis surj_pair)
  from Cons.prems one rest have eq: "results = r # rs" "s' = s2"
    by simp_all
  from Cons.IH [OF rest] step [OF one] show ?case
    unfolding eq by simp
qed

lemma filter_zip_not_empty:
  "length rs = length ts \<Longrightarrow>
     (filter (\<lambda>(t, r). \<not> r) (zip ts rs) = []) = list_all (\<lambda>r. r) rs"
  by (induction ts rs rule: list_induct2') simp_all

lemma remove_single_tool_raised:
  assumes "run_command sh (''apt remove -y '' @ t) True True h = (Inl e, h1)"
  shows "remove_single_tool sh n t (p, h)
           = (False, p\<lparr>failed_tools := failed_tools p @ [(t, str e)]\<rparr>, h1)"
  using assms by (simp add: remove_single_tool_def)

lemma remove_single_tool_returned:
  assumes "run_command sh (''apt remove -y '' @ t) True True h = (Inr (result, out, stderr), h1)"
  shows "remove_single_tool sh n t (p, h) =
           (if result = 0 then (True, p\<lparr>completed_tools := completed_tools p + 1\<rparr>, h1)
            else if contains ''Unable to locate package'' stderr
                    \<or> contains ''is not installed'' stderr
            then (True,
                  p\<lparr>completed_tools := completed_tools p + 1,
                    not_installed := not_installed p + 1\<rparr>,
                  h1)
            else (False,
                  p\<lparr>completed_tools := completed_tools p + 1,
                    failed_tools := failed_tools p @ [(t, stderr)]\<rparr>,
                  h1))"
  using assms by (simp add: remove_single_tool_def Let_def)

lemma remove_single_tool_failed:
  assumes "remove_single_tool sh n t (p, h) = (r, p', h')"
  shows "map fst (failed_tools p') = map fst (failed_tools p) @ (if r then [] else [t])"
  using assms
  by (auto simp: remove_single_tool_def Let_def split: prod.splits sum.splits if_splits)

lemma update_single_tool_raised:
  assumes "run_command sh (''apt install --only-upgrade -y '' @ t) True True h = (Inl e, h1)"
  shows "update_single_tool sh n t (p, h)
           = (False, p\<lparr>failed_tools := failed_tools p @ [(t, str e)]\<rparr>, h1)"
  using assms by (simp add: update_single_tool_def)

lemma update_single_tool_returned:
  assumes "run_command sh (''apt install --only-upgrade -y '' @ t) True True h
             = (Inr (result, out, stderr), h1)"
  shows "update_single_tool sh n t (p, h) =
           (if result = 0 then (True, p\<lparr>completed_tools := completed_tools p + 1\<rparr>, h1)
            else if contains ''is already the newest version'' stderr
            then (True,
                  p\<lparr>completed_tools := completed_tools p + 1,
                    already_newest := already_newest p + 1\<rparr>,
                  h1)
            else (False,
                  p\<lparr>completed_tools := completed_tools p + 1,
                    failed_tools := failed_tools p @ [(t, stderr)]\<rparr>,
                  h1))"
  using assms by (simp add: update_single_tool_def Let_def)

lemma update_single_tool_failed:
  assumes "update_single_tool sh n t (p, h) = (r, p', h')"
  shows "map fst (failed_tools p') = map fst (failed_tools p) @ (if r then [] else [t])"
  using assms
  by (auto simp: update_single_tool_def Let_def split: prod.splits sum.splits if_splits)

lemma remove_all_failed:
  assumes "remove_all sh tools h = (results, p, h')"
  shows "map fst (failed_tools p) = map fst (filter (\<lambda>(t, r). \<not> r) (zip tools results))"
    and "(failed_tools p = []) = list_all (\<lambda>r. r) results"
proof -
  from assms have run: "executor_map (remove_single_tool sh (length tools)) tools
      (\<lparr>completed_tools = 0, failed_tools = [], not_installed = 0\<rparr>, h) = (results, p, h')"
    by (simp add: remove_all_def)
  have "(\<lambda>(p, h). map fst (failed_tools p)) (p, h')
          = (\<lambda>(p, h). map fst (failed_tools p))
              (\<lparr>completed_tools = 0, failed_tools = [], not_installed = 0\<rparr>, h)
            @ map fst (filter (\<lambda>(t, r). \<not> r) (zip tools results))"
    by (rule executor_map_failed_names [OF _ run]) (auto dest: remove_single_tool_failed)
  then show names: "map fst (failed_tools p) = map fst (filter (\<lambda>(t, r). \<not> r) (zip tools results))"
    by simp
  have "length results = length tools"
    using run by (rule executor_map_length)
  from filter_zip_not_empty [OF this] names
  show "(failed_tools p = []) = list_all (\<lambda>r. r) results"
    by (metis map_is_Nil_conv)
qed

lemma update_all_failed:
  assumes "update_all sh tools h = (results, p, h')"
  shows "map fst (failed_tools p) = map fst (filter (\<lambda>(t, r). \<not> r) (zip tools results))"
    and "(failed_tools p = []) = list_all (\<lambda>r. r) results"
proof -
  from assms have run: "executor_map (update_single_tool sh (length tools)) tools
      (\<lparr>completed_tools = 0, failed_tools = [], already_newest = 0\<rparr>, h) = (results, p, h')"
    by (simp add: update_all_def)
  have "(\<lambda>(p, h). map fst (failed_tools p)) (p, h')
          = (\<lambda>(p, h). map fst (failed_tools p))
              (\<lparr>completed_tools = 0, failed_tools = [], already_newest = 0\<rparr>, h)
            @ map fst (filter (\<lambda>(t, r). \<not> r) (zip tools results))"
    by (rule executor_map_failed_names [OF _ run]) (auto dest: update_single_tool_failed)
  then show names: "map fst (failed_tools p) = map fst (filter (\<lambda>(t, r). \<not> r) (zip tools results))"
    by simp
  have "length results = length tools"
    using run by (rule executor_map_length)
  from filter_zip_not_empty [OF this] names
  show "(failed_tools p = []) = list_all (\<lambda>r. r) results"
    by (metis map_is_Nil_conv)
qed

text \<open>When every tool of the batch turns out not to be installed.\<close>

lemma executor_map_remove_none_installed:
  assumes none: "\<forall>t \<in> set tools. \<forall>k. \<exists>result out stderr k'.
             run_command sh (''apt remove -y '' @ t) True True k = (Inr (result, out, stderr), k')
             \<and> result \<noteq> 0 \<and> contains ''is not installed'' stderr"
    and run: "executor_map (remove_single_tool sh n) tools (p, h) = (results, p', h')"
  shows "list_all (\<lambda>r. r) results \<and> not_installed p' = not_installed p + length tools
         \<and> failed_tools p' = failed_tools p"
  using none run
proof (induction tools arbitrary: p h results p' h')
  case Nil
  then show ?case by simp
next
  case (Cons t tools)
  from Cons.prems(1) obtain result out stderr k'
    where cmd: "run_command sh (''apt remove -y '' @ t) True True h = (Inr (result, out, stderr), k')"
      and nz: "result \<noteq> 0" and gone: "contains ''is not installed'' stderr"
    by (metis list.set_intros(1))
  let ?p1 = "p\<lparr>completed_tools := completed_tools p + 1, not_installed := not_installed p + 1\<rparr>"
  from nz gone have one: "remove_single_tool sh n t (p, h) = (True, ?p1, k')"
    by (simp add: remove_single_tool_returned [OF cmd])
  obtain rs p2 h2 where rest: "executor_map (remove_single_tool sh n) tools (?p1, k') = (rs, p2, h2)"
    by (metis prod_cases3)
  from Cons.prems(2) one rest have eq: "results = True # rs" "p' = p2" "h' = h2"
    by simp_all
  from Cons.prems(1) have "\<forall>t \<in> set tools. \<forall>k. \<exists>result out stderr k'.
             run_command sh (''apt remove -y '' @ t) True True k = (Inr (result, out, stderr), k')
             \<and> result \<noteq> 0 \<and> contains ''is not installed'' stderr"
    by simp
  from Cons.IH [OF this rest] show ?case
    unfolding eq by simp
qed

lemma batch_remove_tools_returned:
  assumes "run_command sh (remove_cmd tools) True True h = (Inr (result, out, stderr), h1)"
  shows "batch_remove_tools sh tools h =
           (if result = 0 then (Inr True, h1)
            else if contains ''Permission denied'' stderr
                    \<or> contains ''requires root privileges'' stderr
            then (Inl (PermissionError
                         ''Permission denied while removing tools. Please run as root.''), h1)
            else if contains ''Unable to locate package'' stderr
                    \<or> contains ''is not installed'' stderr
            then (Inr False, h1)
            else (Inl (ToolInstallationError ''Failed to remove some tools''), h1))"
  using assms by (simp add: batch_remove_tools_def)

text \<open>
  C6 as stated fails in the combined path. apt exits with code 0 when a package is not
  installed, and then \<open>remove_tools\<close> returns true whatever stderr says; and when stderr
  also holds ``Permission denied'', the permission rule comes first and the call raises.
\<close>

theorem remove_not_installed_counterexample:
  "remove_tools (\<lambda>h c. Completed 0 [] ''Package 'foo' is not installed, so not removed'')
     KeyboardInterrupt [''foo''] True []
   = (Inr True, [''apt remove -y foo''])
   \<and> remove_tools
       (\<lambda>h c. Completed 100 []
                 ''E: dpkg lock: Permission denied; dpkg: warning: package foo is not installed'')
       KeyboardInterrupt [''foo''] True []
     = (Inl (PermissionError ''Permission denied while removing tools. Please run as root.''),
        [''apt remove -y foo''])"
  by code_simp

text \<open>
  C6 (as amended). A package whose remove command exits non-zero with ``is not
  installed'' in stderr is never a failure. In the path with one command per tool its
  worker returns \<open>True\<close> and counts it as not installed, and when this holds for every
  tool of the batch nothing is recorded as failed and the call returns false without
  raising. In the combined path the call returns false without raising when stderr holds
  neither ``Permission denied'' nor ``requires root privileges''; so does \<open>remove_tools\<close>
  for the single package \<open>foo\<close> and for more than three such packages, whether the user
  confirms or not.
\<close>

theorem remove_not_installed_is_not_a_failure:
  "(run_command sh (''apt remove -y '' @ tool_name) True True h = (Inr (result, out, stderr), h1)
      \<and> result \<noteq> 0 \<and> contains ''is not installed'' stderr
     \<longrightarrow> remove_single_tool sh total_tools tool_name (p, h)
           = (True,
              p\<lparr>completed_tools := completed_tools p + 1,
                not_installed := not_installed p + 1\<rparr>,
              h1))
   \<and> ((\<forall>t \<in> set tools. \<forall>k. \<exists>result out stderr k'.
          run_command sh (''apt remove -y '' @ t) True True k = (Inr (result, out, stderr), k')
          \<and> result \<noteq> 0 \<and> contains ''is not installed'' stderr)
     \<longrightarrow> failed_tools (fst (snd (remove_all sh tools h))) = []
         \<and> not_installed (fst (snd (remove_all sh tools h))) = length tools
         \<and> fst (parallel_remove_tools sh tools h) = Inr False)
   \<and> (run_command sh (remove_cmd tools) True True h = (Inr (result, out, stderr), h1)
      \<and> result \<noteq> 0 \<and> contains ''is not installed'' stderr
      \<and> \<not> contains ''Permission denied'' stderr
      \<and> \<not> contains ''requires root privileges'' stderr
     \<longrightarrow> batch_remove_tools sh tools h = (Inr False, h1))
   \<and> ((skip_confirmation \<or> (\<exists>confirm. safe_input terminal = Inr confirm))
      \<and> run_command sh ''apt remove -y foo'' True True h = (Inr (result, out, stderr), h1)
      \<and> result \<noteq> 0 \<and> contains ''is not installed'' stderr
      \<and> \<not> contains ''Permission denied'' stderr
      \<and> \<not> contains ''requires root privileges'' stderr
     \<longrightarrow> fst (remove_tools sh terminal [''foo''] skip_confirmation h) = Inr False)
   \<and> ((skip_confirmation \<or> (\<exists>confirm. safe_input terminal = Inr confirm))
      \<and> length tools > 3
      \<and> (\<forall>t \<in> set tools. \<forall>k. \<exists>result out stderr k'.
            run_command sh (''apt remove -y '' @ t) True True k = (Inr (result, out, stderr), k')
            \<and> result \<noteq> 0 \<and> contains ''is not installed'' stderr)
     \<longrightarrow> fst (remove_tools sh terminal tools skip_confirmation h) = Inr False)"
proof (intro conjI impI)
  assume a: "(skip_confirmation \<or> (\<exists>confirm. safe_input terminal = Inr confirm))
      \<and> length tools > 3
      \<and> (\<forall>t \<in> set tools. \<forall>k. \<exists>result out stderr k'.
            run_command sh (''apt remove -y '' @ t) True True k = (Inr (result, out, stderr), k')
            \<and> result \<noteq> 0 \<and> contains ''is not installed'' stderr)"
  then have none: "\<forall>t \<in> set tools. \<forall>k. \<exists>result out stderr k'.
          run_command sh (''apt remove -y '' @ t) True True k = (Inr (result, out, stderr), k')
          \<and> result \<noteq> 0 \<and> contains ''is not installed'' stderr"
    and many: "\<not> length tools \<le> 3"
    and ans: "skip_confirmation \<or> (\<exists>confirm. safe_input terminal = Inr confirm)"
    by auto
  obtain results q h' where all: "remove_all sh tools h = (results, q, h')"
    by (metis prod_cases3)
  then have run: "executor_map (remove_single_tool sh (length tools)) tools
      (\<lparr>completed_tools = 0, failed_tools = [], not_installed = 0\<rparr>, h) = (results, q, h')"
    by (simp add: remove_all_def)
  from executor_map_remove_none_installed [OF none run]
  have facts: "list_all (\<lambda>r. r) results" "not_installed q = length tools"
    by simp_all
  with all have par: "parallel_remove_tools sh tools h = (Inr False, h')"
    by (simp add: parallel_remove_tools_def)
  from ans many par show "fst (remove_tools sh terminal tools skip_confirmation h) = Inr False"
    by (auto simp: remove_tools_def)
next
  assume "run_command sh (''apt remove -y '' @ tool_name) True True h = (Inr (result, out, stderr), h1)
      \<and> result \<noteq> 0 \<and> contains ''is not installed'' stderr"
  then show "remove_single_tool sh total_tools tool_name (p, h)
           = (True,
              p\<lparr>completed_tools := completed_tools p + 1,
                not_installed := not_installed p + 1\<rparr>,
              h1)"
    by (simp add: remove_single_tool_returned)
next
  assume none: "\<forall>t \<in> set tools. \<forall>k. \<exists>result out stderr k'.
          run_command sh (''apt remove -y '' @ t) True True k = (Inr (result, out, stderr), k')
          \<and> result \<noteq> 0 \<and> contains ''is not installed'' stderr"
  obtain results q h' where all: "remove_all sh tools h = (results, q, h')"
    by (metis prod_cases3)
  then have run: "executor_map (remove_single_tool sh (length tools)) tools
      (\<lparr>completed_tools = 0, failed_tools = [], not_installed = 0\<rparr>, h) = (results, q, h')"
    by (simp add: remove_all_def)
  from executor_map_remove_none_installed [OF none run]
  have facts: "list_all (\<lambda>r. r) results" "not_installed q = length tools" "failed_tools q = []"
    by simp_all
  from all facts show "failed_tools (fst (snd (remove_all sh tools h))) = []"
    by simp
  from all facts show "not_installed (fst (snd (remove_all sh tools h))) = length tools"
    by simp
  from all facts show "fst (parallel_remove_tools sh tools h) = Inr False"
    by (simp add: parallel_remove_tools_def)
next
  assume "run_command sh (remove_cmd tools) True True h = (Inr (result, out, stderr), h1)
      \<and> result \<noteq> 0 \<and> contains ''is not installed'' stderr
      \<and> \<not> contains ''Permission denied'' stderr
      \<and> \<not> contains ''requires root privileges'' stderr"
  then show "batch_remove_tools sh tools h = (Inr False, h1)"
    by (simp add: batch_remove_tools_returned)
next
  assume a: "(skip_confirmation \<or> (\<exists>confirm. safe_input terminal = Inr confirm))
      \<and> run_command sh ''apt remove -y foo'' True True h = (Inr (result, out, stderr), h1)
      \<and> result \<noteq> 0 \<and> contains ''is not installed'' stderr
      \<and> \<not> contains ''Permission denied'' stderr
      \<and> \<not> contains ''requires root privileges'' stderr"
  have cmd: "remove_cmd [''foo''] = ''apt remove -y foo''"
    by (simp add: remove_cmd_def)
  from a have "batch_remove_tools sh [''foo''] h = (Inr False, h1)"
    by (simp add: batch_remove_tools_returned [of sh "[''foo'']" h result out stderr h1] cmd)
  with a show "fst (remove_tools sh terminal [''foo''] skip_confirmation h) = Inr False"
    by (auto simp: remove_tools_def)
qed

theorem remove_not_installed_is_not_a_failure_witness:
  "remove_single_tool (\<lambda>h c. Completed 100 [] ''E: Package is not installed'') 4 ''foo''
      (\<lparr>completed_tools = 0, failed_tools = [], not_installed = 0\<rparr>, [])
    = (True, \<lparr>completed_tools = 1, failed_tools = [], not_installed = 1\<rparr>, [''apt remove -y foo''])
   \<and> fst (parallel_remove_tools (\<lambda>h c. Completed 100 [] ''E: Package is not installed'')
            [''a'', ''b'', ''c'', ''d''] []) = Inr False
   \<and> batch_remove_tools (\<lambda>h c. Completed 100 [] ''E: Package is not installed'')
        [''foo'', ''bar''] []
      = (Inr False, [''apt remove -y foo bar''])
   \<and> fst (remove_tools (\<lambda>h c. Completed 100 [] ''E: Package is not installed'') (Typed ''y'')
            [''foo''] False []) = Inr False
   \<and> fst (remove_tools (\<lambda>h c. Completed 100 [] ''E: Package is not installed'') (Typed ''y'')
            [''a'', ''b'', ''c'', ''d''] False []) = Inr False"
proof -
  let ?err = "''E: Package is not installed''"
  let ?sh = "\<lambda>h c. Completed 100 [] ?err"
  let ?p = "\<lparr>completed_tools = 0, failed_tools = [], not_installed = 0\<rparr>"
  note main = remove_not_installed_is_not_a_failure
  have nz: "(100::int) \<noteq> 0"
    by simp
  have gone: "contains ''is not installed'' ?err"
    by simp
  have quiet: "\<not> contains ''Permission denied'' ?err" "\<not> contains ''requires root privileges'' ?err"
    by simp_all
  have run1: "run_command ?sh (''apt remove -y '' @ ''foo'') True True []
                = (Inr (100, [], ?err), [''apt remove -y foo''])"
    by code_simp
  have one: "remove_single_tool ?sh 4 ''foo'' (?p, [])
               = (True,
                  ?p\<lparr>completed_tools := completed_tools ?p + 1,
                     not_installed := not_installed ?p + 1\<rparr>,
                  [''apt remove -y foo''])"
    by (rule main [where sh = "?sh" and tool_name = "''foo''" and h = "[]" and result = 100
                    and out = "[]" and stderr = "?err" and ?h1.0 = "[''apt remove -y foo'']"
                    and total_tools = 4 and p = "?p",
                  THEN conjunct1, rule_format])
       (intro conjI run1 nz gone)
  have strip: "strip ?err = ?err"
    by code_simp
  have each: "\<And>t k. \<forall>p \<in> set dangerous_patterns. \<not> contains p (''apt remove -y '' @ t) \<Longrightarrow>
     \<exists>result out stderr k'.
       run_command ?sh (''apt remove -y '' @ t) True True k = (Inr (result, out, stderr), k')
       \<and> result \<noteq> 0 \<and> contains ''is not installed'' stderr"
    using strip gone by (simp add: run_command_clean strip_def)
  have none: "\<forall>t \<in> set [''a'', ''b'', ''c'', ''d'']. \<forall>k. \<exists>result out stderr k'.
          run_command ?sh (''apt remove -y '' @ t) True True k = (Inr (result, out, stderr), k')
          \<and> result \<noteq> 0 \<and> contains ''is not installed'' stderr"
  proof (intro ballI allI)
    fix t k
    assume "t \<in> set [''a'', ''b'', ''c'', ''d'']"
    then have "\<forall>p \<in> set dangerous_patterns. \<not> contains p (''apt remove -y '' @ t)"
      by (auto simp: dangerous_patterns_def)
    then show "\<exists>result out stderr k'.
       run_command ?sh (''apt remove -y '' @ t) True True k = (Inr (result, out, stderr), k')
       \<and> result \<noteq> 0 \<and> contains ''is not installed'' stderr"
      by (rule each)
  qed
  have two: "fst (parallel_remove_tools ?sh [''a'', ''b'', ''c'', ''d''] []) = Inr False"
    using main [where sh = "?sh" and tools = "[''a'', ''b'', ''c'', ''d'']" and h = "[]",
               THEN conjunct2, THEN conjunct1, THEN mp, OF none]
    by blast
  have run3: "run_command ?sh (remove_cmd [''foo'', ''bar'']) True True []
                = (Inr (100, [], ?err), [''apt remove -y foo bar''])"
    by code_simp
  have three: "batch_remove_tools ?sh [''foo'', ''bar''] [] = (Inr False, [''apt remove -y foo bar''])"
    by (rule main [where sh = "?sh" and tools = "[''foo'', ''bar'']" and h = "[]" and result = 100
                    and out = "[]" and stderr = "?err" and ?h1.0 = "[''apt remove -y foo bar'']",
                  THEN conjunct2, THEN conjunct2, THEN conjunct1, rule_format])
       (intro conjI run3 nz gone quiet)
  have ans: "False \<or> (\<exists>confirm. safe_input (Typed ''y'') = Inr confirm)"
  proof -
    have "safe_input (Typed ''y'') = Inr ''y''"
      by code_simp
    then show ?thesis
      by blast
  qed
  have run4: "run_command ?sh ''apt remove -y foo'' True True []
                = (Inr (100, [], ?err), [''apt remove -y foo''])"
    by code_simp
  have four: "fst (remove_tools ?sh (Typed ''y'') [''foo''] False []) = Inr False"
    by (rule main [where sh = "?sh" and terminal = "Typed ''y''" and skip_confirmation = False
                    and h = "[]" and result = 100 and out = "[]" and stderr = "?err"
                    and ?h1.0 = "[''apt remove -y foo'']",
                  THEN conjunct2, THEN conjunct2, THEN conjunct2, THEN conjunct1, rule_format])
       (intro conjI ans run4 nz gone quiet)
  have many: "length [''a'', ''b'', ''c'', ''d''] > 3"
    by simp
  have five: "fst (remove_tools ?sh (Typed ''y'') [''a'', ''b'', ''c'', ''d''] False []) = Inr False"
    by (rule main [where sh = "?sh" and terminal = "Typed ''y''" and skip_confirmation = False
                     and tools = "[''a'', ''b'', ''c'', ''d'']" and h = "[]",
                   THEN conjunct2, THEN conjunct2, THEN conjunct2, THEN conjunct2, THEN mp])
       (intro conjI ans many none)
  from one two three four five show ?thesis
    by simp
qed

text \<open>
  C7 as stated fails for removal: a non-zero exit whose stderr says ``Unable to locate
  package'', and not ``is not installed'', is counted as not installed too. Four such
  tools give no failure and no exception.
\<close>

theorem unable_to_locate_on_remove_counterexample:
  "\<not> contains ''is not installed'' ''E: Unable to locate package foo''
   \<and> (case remove_all (\<lambda>h c. Completed 100 [] ''E: Unable to locate package foo'')
             [''a'', ''b'', ''c'', ''d''] [] of
        (results, p, h') \<Rightarrow> (results, failed_tools p, not_installed p))
      = ([True, True, True, True], [], 4)
   \<and> parallel_remove_tools (\<lambda>h c. Completed 100 [] ''E: Unable to locate package foo'')
        [''a'', ''b'', ''c'', ''d''] []
      = (Inr False,
         [''apt remove -y a'', ''apt remove -y b'', ''apt remove -y c'', ''apt remove -y d''])"
  by code_simp

text \<open>
  C7 (as amended). In the path with one command per tool, the remove worker reports a
  failure exactly when the command raised or exited non-zero with neither ``Unable to
  locate package'' nor ``is not installed'' in stderr, and the upgrade worker exactly when
  the command raised or exited non-zero without ``is already the newest version''. The
  failed tools of a batch are the tools whose worker reported a failure; when there is at
  least one, the coordinator raises a \<open>ToolInstallationError\<close> that tells how many of how
  many tools failed, whatever the proportion, and when there is none it returns. In the
  combined path a non-zero exit without these texts raises at once.
\<close>

theorem remove_and_update_failures_raise:
  "(run_command sh (''apt remove -y '' @ t) True True h = (Inr (result, out, stderr), h1)
     \<longrightarrow> fst (remove_single_tool sh n t (p, h))
           = (result = 0 \<or> contains ''Unable to locate package'' stderr
              \<or> contains ''is not installed'' stderr)
         \<and> failed_tools (fst (snd (remove_single_tool sh n t (p, h))))
           = failed_tools p
             @ (if result = 0 \<or> contains ''Unable to locate package'' stderr
                   \<or> contains ''is not installed'' stderr
                then [] else [(t, stderr)]))
   \<and> (run_command sh (''apt remove -y '' @ t) True True h = (Inl e, h1)
     \<longrightarrow> remove_single_tool sh n t (p, h)
           = (False, p\<lparr>failed_tools := failed_tools p @ [(t, str e)]\<rparr>, h1))
   \<and> (run_command sh (''apt install --only-upgrade -y '' @ t) True True h
         = (Inr (result, out, stderr), h1)
     \<longrightarrow> fst (update_single_tool sh n t (u, h))
           = (result = 0 \<or> contains ''is already the newest version'' stderr)
         \<and> failed_tools (fst (snd (update_single_tool sh n t (u, h))))
           = failed_tools u
             @ (if result = 0 \<or> contains ''is already the newest version'' stderr
                then [] else [(t, stderr)]))
   \<and> (run_command sh (''apt install --only-upgrade -y '' @ t) True True h = (Inl e, h1)
     \<longrightarrow> update_single_tool sh n t (u, h)
           = (False, u\<lparr>failed_tools := failed_tools u @ [(t, str e)]\<rparr>, h1))
   \<and> (remove_all sh tools h = (results, q, h')
     \<longrightarrow> map fst (failed_tools q) = map fst (filter (\<lambda>(t, r). \<not> r) (zip tools results))
         \<and> (failed_tools q \<noteq> []
            \<longrightarrow> parallel_remove_tools sh tools h
                = (Inl (ToolInstallationError
                          (''Error during parallel removal: Failed to remove ''
                           @ str_nat (length (failed_tools q)) @ '' out of ''
                           @ str_nat (length tools) @ '' tools'')),
                   h'))
         \<and> (failed_tools q = [] \<longrightarrow> (\<exists>b. parallel_remove_tools sh tools h = (Inr b, h'))))
   \<and> (update_all sh tools h = (results, v, h')
     \<longrightarrow> map fst (failed_tools v) = map fst (filter (\<lambda>(t, r). \<not> r) (zip tools results))
         \<and> (failed_tools v \<noteq> []
            \<longrightarrow> parallel_update_tools sh tools h
                = (Inl (ToolInstallationError
                          (''Error during parallel update: Failed to update ''
                           @ str_nat (length (failed_tools v)) @ '' out of ''
                           @ str_nat (length tools) @ '' tools'')),
                   h'))
         \<and> (failed_tools v = [] \<longrightarrow> parallel_update_tools sh tools h = (Inr True, h')))
   \<and> (run_command sh (remove_cmd tools) True True h = (Inr (result, out, stderr), h1)
      \<and> result \<noteq> 0 \<and> \<not> contains ''Unable to locate package'' stderr
      \<and> \<not> contains ''is not installed'' stderr
     \<longrightarrow> (\<exists>e. batch_remove_tools sh tools h = (Inl e, h1)))
   \<and> (run_command sh (update_cmd tools) True True h = (Inr (result, out, stderr), h1)
      \<and> result \<noteq> 0 \<and> \<not> contains ''is already the newest version'' stderr
     \<longrightarrow> (\<exists>e. batch_update_tools sh tools h = (Inl e, h1)))"
proof (intro conjI impI)
  assume "run_command sh (remove_cmd tools) True True h = (Inr (result, out, stderr), h1)
      \<and> result \<noteq> 0 \<and> \<not> contains ''Unable to locate package'' stderr
      \<and> \<not> contains ''is not installed'' stderr"
  then show "\<exists>e. batch_remove_tools sh tools h = (Inl e, h1)"
    by (simp add: batch_remove_tools_returned)
next
  assume "run_command sh (update_cmd tools) True True h = (Inr (result, out, stderr), h1)
      \<and> result \<noteq> 0 \<and> \<not> contains ''is already the newest version'' stderr"
  then show "\<exists>e. batch_update_tools sh tools h = (Inl e, h1)"
    by (simp add: batch_update_tools_def Let_def)
next
  assume run: "run_command sh (''apt remove -y '' @ t) True True h = (Inr (result, out, stderr), h1)"
  show "fst (remove_single_tool sh n t (p, h))
           = (result = 0 \<or> contains ''Unable to locate package'' stderr
              \<or> contains ''is not installed'' stderr)"
    by (simp add: remove_single_tool_returned [OF run])
  show "failed_tools (fst (snd (remove_single_tool sh n t (p, h))))
           = failed_tools p
             @ (if result = 0 \<or> contains ''Unable to locate package'' stderr
                   \<or> contains ''is not installed'' stderr
                then [] else [(t, stderr)])"
    by (simp add: remove_single_tool_returned [OF run])
next
  assume "run_command sh (''apt remove -y '' @ t) True True h = (Inl e, h1)"
  then show "remove_single_tool sh n t (p, h)
           = (False, p\<lparr>failed_tools := failed_tools p @ [(t, str e)]\<rparr>, h1)"
    by (rule remove_single_tool_raised)
next
  assume run: "run_command sh (''apt install --only-upgrade -y '' @ t) True True h
         = (Inr (result, out, stderr), h1)"
  show "fst (update_single_tool sh n t (u, h))
           = (result = 0 \<or> contains ''is already the newest version'' stderr)"
    by (simp add: update_single_tool_returned [OF run])
  show "failed_tools (fst (snd (update_single_tool sh n t (u, h))))
           = failed_tools u
             @ (if result = 0 \<or> contains ''is already the newest version'' stderr
                then [] else [(t, stderr)])"
    by (simp add: update_single_tool_returned [OF run])
next
  assume "run_command sh (''apt install --only-upgrade -y '' @ t) True True h = (Inl e, h1)"
  then show "update_single_tool sh n t (u, h)
           = (False, u\<lparr>failed_tools := failed_tools u @ [(t, str e)]\<rparr>, h1)"
    by (rule update_single_tool_raised)
next
  assume all: "remove_all sh tools h = (results, q, h')"
  show "map fst (failed_tools q) = map fst (filter (\<lambda>(t, r). \<not> r) (zip tools results))"
    using all by (rule remove_all_failed(1))
  {
    assume "failed_tools q \<noteq> []"
    with remove_all_failed(2) [OF all] have "\<not> list_all (\<lambda>r. r) results"
      by simp
    with all show "parallel_remove_tools sh tools h
                = (Inl (ToolInstallationError
                          (''Error during parallel removal: Failed to remove ''
                           @ str_nat (length (failed_tools q)) @ '' out of ''
                           @ str_nat (length tools) @ '' tools'')),
                   h')"
      by (simp add: parallel_remove_tools_def)
  }
  {
    assume "failed_tools q = []"
    with remove_all_failed(2) [OF all] have "list_all (\<lambda>r. r) results"
      by simp
    with all show "\<exists>b. parallel_remove_tools sh tools h = (Inr b, h')"
      by (auto simp: parallel_remove_tools_def)
  }
next
  assume all: "update_all sh tools h = (results, v, h')"
  show "map fst (failed_tools v) = map fst (filter (\<lambda>(t, r). \<not> r) (zip tools results))"
    using all by (rule update_all_failed(1))
  {
    assume "failed_tools v \<noteq> []"
    with update_all_failed(2) [OF all] have "\<not> list_all (\<lambda>r. r) results"
      by simp
    with all show "parallel_update_tools sh tools h
                = (Inl (ToolInstallationError
                          (''Error during parallel update: Failed to update ''
                           @ str_nat (length (failed_tools v)) @ '' out of ''
                           @ str_nat (length tools) @ '' tools'')),
                   h')"
      by (simp add: parallel_update_tools_def)
  }
  {
    assume "failed_tools v = []"
    with update_all_failed(2) [OF all] have "list_all (\<lambda>r. r) results"
      by simp
    with all show "parallel_update_tools sh tools h = (Inr True, h')"
      by (simp add: parallel_update_tools_def)
  }
qed

theorem remove_and_update_failures_raise_witness:
  "\<not> fst (remove_single_tool
            (\<lambda>h c. if c = ''apt remove -y c'' then Completed 100 [] ''E: dpkg was interrupted''
                    else Completed 0 [] [])
            4 ''c'' (\<lparr>completed_tools = 2, failed_tools = [], not_installed = 0\<rparr>, []))
   \<and> \<not> fst (remove_single_tool (\<lambda>h c. Completed 0 [] []) 4 ''x; reboot''
            (\<lparr>completed_tools = 2, failed_tools = [], not_installed = 0\<rparr>, []))
   \<and> fst (update_single_tool (\<lambda>h c. Completed 100 [] ''nmap is already the newest version (7.94)'')
            4 ''nmap'' (\<lparr>completed_tools = 0, failed_tools = [], already_newest = 0\<rparr>, []))
   \<and> \<not> fst (update_single_tool (\<lambda>h c. Completed 0 [] []) 4 ''x; reboot''
            (\<lparr>completed_tools = 0, failed_tools = [], already_newest = 0\<rparr>, []))
   \<and> parallel_remove_tools
        (\<lambda>h c. if c = ''apt remove -y c'' then Completed 100 [] ''E: dpkg was interrupted''
                else Completed 0 [] [])
        [''a'', ''b'', ''c'', ''d''] []
      = (Inl (ToolInstallationError
                ''Error during parallel removal: Failed to remove 1 out of 4 tools''),
         [''apt remove -y a'', ''apt remove -y b'', ''apt remove -y c'', ''apt remove -y d''])
   \<and> parallel_update_tools
        (\<lambda>h c. Completed 100 [] ''nmap is already the newest version (7.94)'')
        [''a'', ''b'', ''c'', ''d''] []
      = (Inr True,
         [''apt install --only-upgrade -y a'', ''apt install --only-upgrade -y b'',
          ''apt install --only-upgrade -y c'', ''apt install --only-upgrade -y d''])
   \<and> (\<exists>e. batch_remove_tools (\<lambda>h c. Completed 100 [] ''E: dpkg was interrupted'')
             [''a'', ''b''] [] = (Inl e, [''apt remove -y a b'']))
   \<and> (\<exists>e. batch_update_tools (\<lambda>h c. Completed 100 [] ''E: dpkg was interrupted'')
             [''a'', ''b''] [] = (Inl e, [''apt install --only-upgrade -y a b'']))"
proof -
  let ?shr = "\<lambda>h c. if c = ''apt remove -y c'' then Completed 100 [] ''E: dpkg was interrupted''
                    else Completed 0 [] []"
  let ?ok = "\<lambda>h c. Completed 0 [] []"
  let ?shu = "\<lambda>h c. Completed 100 [] ''nmap is already the newest version (7.94)''"
  let ?pr = "\<lparr>completed_tools = 2, failed_tools = [], not_installed = 0\<rparr>"
  let ?pu = "\<lparr>completed_tools = 0, failed_tools = [], already_newest = 0\<rparr>"
  let ?tools = "[''a'', ''b'', ''c'', ''d'']"
  note main = remove_and_update_failures_raise
  have run1: "run_command ?shr (''apt remove -y '' @ ''c'') True True []
                = (Inr (100, [], ''E: dpkg was interrupted''), [''apt remove -y c''])"
    by code_simp
  have "fst (remove_single_tool ?shr 4 ''c'' (?pr, []))
          = ((100::int) = 0 \<or> contains ''Unable to locate package'' ''E: dpkg was interrupted''
             \<or> contains ''is not installed'' ''E: dpkg was interrupted'')"
    using main [where sh = "?shr" and t = "''c''" and h = "[]" and result = 100 and out = "[]"
                  and stderr = "''E: dpkg was interrupted''" and ?h1.0 = "[''apt remove -y c'']"
                  and n = 4 and p = "?pr",
                THEN conjunct1, THEN mp, OF run1]
    by blast
  then have one: "\<not> fst (remove_single_tool ?shr 4 ''c'' (?pr, []))"
    by simp
  have run2: "run_command ?ok (''apt remove -y '' @ ''x; reboot'') True True []
                = (Inl (security_error '';''), [])"
    by code_simp
  have "remove_single_tool ?ok 4 ''x; reboot'' (?pr, [])
          = (False,
             ?pr\<lparr>failed_tools := failed_tools ?pr @ [(''x; reboot'', str (security_error '';''))]\<rparr>,
             [])"
    by (rule main [where sh = "?ok" and t = "''x; reboot''" and h = "[]"
                     and e = "security_error '';''" and ?h1.0 = "[]" and n = 4 and p = "?pr",
                   THEN conjunct2, THEN conjunct1, THEN mp, OF run2])
  then have two: "\<not> fst (remove_single_tool ?ok 4 ''x; reboot'' (?pr, []))"
    by simp
  have run3: "run_command ?shu (''apt install --only-upgrade -y '' @ ''nmap'') True True []
                = (Inr (100, [], ''nmap is already the newest version (7.94)''),
                   [''apt install --only-upgrade -y nmap''])"
    by code_simp
  have "fst (update_single_tool ?shu 4 ''nmap'' (?pu, []))
          = ((100::int) = 0
             \<or> contains ''is already the newest version''
                  ''nmap is already the newest version (7.94)'')"
    using main [where sh = "?shu" and t = "''nmap''" and h = "[]" and result = 100 and out = "[]"
                  and stderr = "''nmap is already the newest version (7.94)''"
                  and ?h1.0 = "[''apt install --only-upgrade -y nmap'']" and n = 4 and u = "?pu",
                THEN conjunct2, THEN conjunct2, THEN conjunct1, THEN mp, OF run3]
    by blast
  then have three: "fst (update_single_tool ?shu 4 ''nmap'' (?pu, []))"
    by simp
  have run4: "run_command ?ok (''apt install --only-upgrade -y '' @ ''x; reboot'') True True []
                = (Inl (security_error '';''), [])"
    by code_simp
  have "update_single_tool ?ok 4 ''x; reboot'' (?pu, [])
          = (False,
             ?pu\<lparr>failed_tools := failed_tools ?pu @ [(''x; reboot'', str (security_error '';''))]\<rparr>,
             [])"
    by (rule main [where sh = "?ok" and t = "''x; reboot''" and h = "[]"
                     and e = "security_error '';''" and ?h1.0 = "[]" and n = 4 and u = "?pu",
                   THEN conjunct2, THEN conjunct2, THEN conjunct2, THEN conjunct1, THEN mp,
                   OF run4])
  then have four: "\<not> fst (update_single_tool ?ok 4 ''x; reboot'' (?pu, []))"
    by simp
  obtain results q h' where all: "remove_all ?shr ?tools [] = (results, q, h')"
    by (metis prod_cases3)
  have "(case remove_all ?shr ?tools [] of (results, q, h') \<Rightarrow> (failed_tools q, h'))
          = ([(''c'', ''E: dpkg was interrupted'')],
             [''apt remove -y a'', ''apt remove -y b'', ''apt remove -y c'', ''apt remove -y d''])"
    by code_simp
  with all have q: "failed_tools q = [(''c'', ''E: dpkg was interrupted'')]"
    and h': "h' = [''apt remove -y a'', ''apt remove -y b'', ''apt remove -y c'', ''apt remove -y d'']"
    by simp_all
  have digits: "str_nat (length [(''c'', ''E: dpkg was interrupted'')]) = ''1''"
    "str_nat (length ?tools) = ''4''"
    by code_simp+
  from q have "failed_tools q \<noteq> []"
    by simp
  with main [where sh = "?shr" and tools = "?tools" and h = "[]" and results = results
               and q = q and h' = h',
             THEN conjunct2, THEN conjunct2, THEN conjunct2, THEN conjunct2, THEN conjunct1,
             THEN mp, OF all]
  have "parallel_remove_tools ?shr ?tools []
          = (Inl (ToolInstallationError
                          (''Error during parallel removal: Failed to remove ''
                           @ str_nat (length (failed_tools q)) @ '' out of ''
                           @ str_nat (length ?tools) @ '' tools'')),
                   h')"
    by blast
  then have five: "parallel_remove_tools ?shr ?tools []
      = (Inl (ToolInstallationError
                ''Error during parallel removal: Failed to remove 1 out of 4 tools''),
         [''apt remove -y a'', ''apt remove -y b'', ''apt remove -y c'', ''apt remove -y d''])"
    unfolding q h' digits by simp
  obtain results' v k' where allu: "update_all ?shu ?tools [] = (results', v, k')"
    by (metis prod_cases3)
  have "(case update_all ?shu ?tools [] of (results, v, h') \<Rightarrow> (failed_tools v, h'))
          = ([], [''apt install --only-upgrade -y a'', ''apt install --only-upgrade -y b'',
                  ''apt install --only-upgrade -y c'', ''apt install --only-upgrade -y d''])"
    by code_simp
  with allu have v: "failed_tools v = []"
    and k': "k' = [''apt install --only-upgrade -y a'', ''apt install --only-upgrade -y b'',
                  ''apt install --only-upgrade -y c'', ''apt install --only-upgrade -y d'']"
    by simp_all
  from v main [where sh = "?shu" and tools = "?tools" and h = "[]" and results = results'
               and v = v and h' = k',
             THEN conjunct2, THEN conjunct2, THEN conjunct2, THEN conjunct2, THEN conjunct2,
             THEN conjunct1, THEN mp, OF allu]
  have "parallel_update_tools ?shu ?tools [] = (Inr True, k')"
    by blast
  then have six: "parallel_update_tools ?shu ?tools []
      = (Inr True,
         [''apt install --only-upgrade -y a'', ''apt install --only-upgrade -y b'',
          ''apt install --only-upgrade -y c'', ''apt install --only-upgrade -y d''])"
    unfolding k' .
  have run7: "run_command (\<lambda>h c. Completed 100 [] ''E: dpkg was interrupted'')
                (remove_cmd [''a'', ''b'']) True True []
              = (Inr (100, [], ''E: dpkg was interrupted''), [''apt remove -y a b''])"
    by code_simp
  have plain: "(100::int) \<noteq> 0"
    "\<not> contains ''Unable to locate package'' ''E: dpkg was interrupted''"
    "\<not> contains ''is not installed'' ''E: dpkg was interrupted''"
    "\<not> contains ''is already the newest version'' ''E: dpkg was interrupted''"
    by simp_all
  have seven: "\<exists>e. batch_remove_tools (\<lambda>h c. Completed 100 [] ''E: dpkg was interrupted'')
                      [''a'', ''b''] [] = (Inl e, [''apt remove -y a b''])"
    by (rule main [where sh = "\<lambda>h c. Completed 100 [] ''E: dpkg was interrupted''"
                     and tools = "[''a'', ''b'']" and h = "[]" and result = 100 and out = "[]"
                     and stderr = "''E: dpkg was interrupted''"
                     and ?h1.0 = "[''apt remove -y a b'']",
                   THEN conjunct2, THEN conjunct2, THEN conjunct2, THEN conjunct2,
                   THEN conjunct2, THEN conjunct2, THEN conjunct1, THEN mp])
       (intro conjI run7 plain)
  have run8: "run_command (\<lambda>h c. Completed 100 [] ''E: dpkg was interrupted'')
                (update_cmd [''a'', ''b'']) True True []
              = (Inr (100, [], ''E: dpkg was interrupted''),
                 [''apt install --only-upgrade -y a b''])"
    by code_simp
  have eight: "\<exists>e. batch_update_tools (\<lambda>h c. Completed 100 [] ''E: dpkg was interrupted'')
                      [''a'', ''b''] [] = (Inl e, [''apt install --only-upgrade -y a b''])"
    by (rule main [where sh = "\<lambda>h c. Completed 100 [] ''E: dpkg was interrupted''"
                     and tools = "[''a'', ''b'']" and h = "[]" and result = 100 and out = "[]"
                     and stderr = "''E: dpkg was interrupted''"
                     and ?h1.0 = "[''apt install --only-upgrade -y a b'']",
                   THEN conjunct2, THEN conjunct2, THEN conjunct2, THEN conjunct2,
                   THEN conjunct2, THEN conjunct2, THEN conjunct2, THEN mp])
       (intro conjI run8 plain)
  from one two three four five six seven eight show ?thesis
    by blast
qed

end
